theory Spec2Isabelle
  imports Main "HOL-Library.Word" "HOL-Library.Char_ord" "HOL-Library.List_Lexorder"
    "HOL-Library.Multiset" "HOL-Library.AList"
begin

section \<open>Values shared by the whole development\<close>

type_synonym bytes = "8 word list"

text \<open>
  Go error values. \<open>Errorf fmt e\<close> is \<^verbatim>\<open>fmt.Errorf(fmt, e)\<close> with one \<^verbatim>\<open>%q\<close> verb,
  \<open>Wrapf e msg\<close> is \<^verbatim>\<open>errors.Wrapf(e, msg)\<close>.
\<close>

datatype err = Err string | Errorf string err | Wrapf err string

text \<open>A panic carries either an error or a plain string.\<close>

datatype panic_value = PErr err | PStr string

text \<open>How a call leaves its frame: by returning a value, or by panicking.\<close>

datatype 'a outcome = Return 'a | Panic panic_value

section \<open>The asset record\<close>

text \<open>
  Modelled from the spec: the declaration of \<^verbatim>\<open>dist.Asset\<close> (package internal/dist) is
  not among the sources. The fields are those the spec lists for an asset and that
  \<^verbatim>\<open>create_asset_cache.go\<close> and its test read and write.
\<close>

record asset =
  ID :: string
  Name :: string
  Version :: string
  Sha256 :: string
  URI :: string
  Stacks :: "string list"
  LayerDiffID :: string

section \<open>Blobs\<close>

text \<open>
  Modelled from the spec: the interfaces \<^verbatim>\<open>blob.Blob\<close> and \<^verbatim>\<open>dist.Blob\<close> are declared
  outside the sources. A blob is a handle to the raw bytes of an asset, and the
  program uses it in one way: \<^verbatim>\<open>blob.Open()\<close> gives a reader or an error, and
  \<^verbatim>\<open>io.Copy(buf, rc)\<close> drains the reader and gives all its bytes or an error.
\<close>

datatype reader = Reader (io_Copy: "err + bytes")

datatype blob = Blob (Open: "err + reader")

section \<open>Package path: Clean and Join\<close>

text \<open>
  \<^verbatim>\<open>path.Clean\<close> of the Go library, by its four rules: several slashes count as one, an
  element \<^verbatim>\<open>.\<close> is dropped, an element \<^verbatim>\<open>..\<close> is dropped together with the element in
  front of it, and \<^verbatim>\<open>..\<close> at the start of a rooted path is dropped. The path is cut at
  its slashes, the elements are filtered, and the rest is put together again; the
  empty result is \<^verbatim>\<open>.\<close>.
\<close>

fun split_on :: "char \<Rightarrow> string \<Rightarrow> string list" where
  "split_on c [] = [[]]"
| "split_on c (x # xs) =
     (if x = c then [] # split_on c xs
      else (case split_on c xs of [] \<Rightarrow> [[x]] | y # ys \<Rightarrow> (x # y) # ys))"

fun join_with :: "string \<Rightarrow> string list \<Rightarrow> string" where
  "join_with sep [] = []"
| "join_with sep [x] = x"
| "join_with sep (x # y # ys) = x @ sep @ join_with sep (y # ys)"

text \<open>
  One element of the path meets the elements kept so far (the last kept one first):
  empty and \<^verbatim>\<open>.\<close> elements are dropped, \<^verbatim>\<open>..\<close> removes the element before it, is
  dropped at the root of a rooted path, and is kept at the start of a relative one.
\<close>

fun clean_step :: "bool \<Rightarrow> string list \<Rightarrow> string \<Rightarrow> string list" where
  "clean_step rooted kept e =
     (if e = [] \<or> e = ''.'' then kept
      else if e = ''..'' then
        (case kept of
           [] \<Rightarrow> (if rooted then [] else [''..''])
         | k # ks \<Rightarrow> (if k = ''..'' then ''..'' # k # ks else ks))
      else e # kept)"

definition path_Clean :: "string \<Rightarrow> string" where
  "path_Clean p =
     (if p = [] then ''.''
      else
        (let rooted = (hd p = CHR ''/'');
             kept = rev (foldl (clean_step rooted) [] (split_on (CHR ''/'') p));
             out = (if rooted then ''/'' else []) @ join_with ''/'' kept
         in if out = [] then ''.'' else out))"

text \<open>\<^verbatim>\<open>path.Join\<close>: empty elements are ignored, the rest is joined by slashes and cleaned;
  when every element is empty the result is the empty string.\<close>

definition path_Join :: "string list \<Rightarrow> string" where
  "path_Join elem =
     (case filter (\<lambda>e. e \<noteq> []) elem of
        [] \<Rightarrow> []
      | es \<Rightarrow> path_Clean (join_with ''/'' es))"

text \<open>On the platforms the program targets \<^verbatim>\<open>filepath.Join\<close> is \<^verbatim>\<open>path.Join\<close>.\<close>

definition filepath_Join :: "string list \<Rightarrow> string" where
  "filepath_Join elem = path_Join elem"

section \<open>Tar headers\<close>

definition TypeReg :: char where "TypeReg = CHR ''0''"

definition TypeDir :: char where "TypeDir = CHR ''5''"

text \<open>The fields of \<^verbatim>\<open>tar.Header\<close> the program sets; all others keep their zero value.\<close>

record tar_header =
  hdr_Typeflag :: char
  hdr_Name :: string
  hdr_Mode :: nat
  hdr_Size :: nat
  hdr_ModTime :: int

definition zero_header :: tar_header where
  "zero_header = \<lparr>hdr_Typeflag = CHR 0x00, hdr_Name = [], hdr_Mode = 0, hdr_Size = 0, hdr_ModTime = 0\<rparr>"

text \<open>The permission bits written \<^verbatim>\<open>0755\<close> in the source (an octal literal).\<close>

definition mode_0755 :: nat where
  "mode_0755 = 7 * 64 + 5 * 8 + 5"

section \<open>The outside world\<close>

text \<open>
  Every call that leaves the program (image factory, downloader, file system, image
  handle) is an event. The trace keeps each event with the error it returned, if any.
\<close>

datatype event =
    NewImage string bool
  | Download string
  | TempDir string string
  | OpenFile string
  | WriteFile string bytes
  | CloseFile string
  | AddLayer string
  | SetLabel string string
  | SaveImage
  | RemoveAll string

type_synonym trace = "(event \<times> err option) list"

record world =
  trace :: trace
  dirs :: "string set"
  files :: "string \<rightharpoonup> bytes"

text \<open>
  What the program does not decide is collected in an environment. It holds the
  behaviour of the collaborators of the client (its image factory, its downloader, the
  image handle, the file system): which outside call fails, given all that happened
  before, what a successful download returns, and the name of the directory a
  successful \<^verbatim>\<open>ioutil.TempDir\<close> creates. It holds the library functions whose code is
  not part of the repository: name parsing (\<^verbatim>\<open>name.NewTag\<close> with weak validation,
  followed by \<^verbatim>\<open>tag.String()\<close>), the hash function behind \<^verbatim>\<open>v1.Hasher("sha256")\<close>, the
  bytes \<^verbatim>\<open>archive/tar\<close> emits for a header, and the JSON encoding of a map key and of
  an asset. And it holds \<open>NormalizedDateTime\<close>, the package-level value
  \<^verbatim>\<open>archive.NormalizedDateTime\<close> of the repository, declared outside the sources: a time
  in seconds that no step of the program changes.
\<close>

record env =
  NewTag :: "string \<Rightarrow> err + string"
  fails :: "trace \<Rightarrow> event \<Rightarrow> err option"
  downloaded :: "trace \<Rightarrow> string \<Rightarrow> blob"
  tempdir :: "trace \<Rightarrow> string"
  sha256 :: "bytes \<Rightarrow> bytes"
  marshal :: "tar_header \<Rightarrow> err + bytes"
  json_key :: "string \<Rightarrow> string"
  json_asset :: "asset \<Rightarrow> string"
  NormalizedDateTime :: int

definition call :: "env \<Rightarrow> event \<Rightarrow> world \<Rightarrow> err option \<times> world" where
  "call E ev w =
     (let r = fails E (trace w) ev in (r, w\<lparr>trace := trace w @ [(ev, r)]\<rparr>))"

subsection \<open>Files and directories\<close>

text \<open>\<^verbatim>\<open>ioutil.TempDir(dir, pattern)\<close> creates a directory and returns its name.\<close>

definition ioutil_TempDir :: "env \<Rightarrow> string \<Rightarrow> string \<Rightarrow> world \<Rightarrow> (err + string) \<times> world" where
  "ioutil_TempDir E dir pattern w =
     (case call E (TempDir dir pattern) w of
        (Some e, w') \<Rightarrow> (Inl e, w')
      | (None, w') \<Rightarrow>
          (let d = tempdir E (trace w) in (Inr d, w'\<lparr>dirs := insert d (dirs w')\<rparr>)))"

text \<open>\<^verbatim>\<open>os.OpenFile(p, O_RDWR|O_CREATE|O_TRUNC, perm)\<close>: the file exists and is empty
  afterwards.\<close>

definition os_OpenFile :: "env \<Rightarrow> string \<Rightarrow> world \<Rightarrow> err option \<times> world" where
  "os_OpenFile E p w =
     (case call E (OpenFile p) w of
        (Some e, w') \<Rightarrow> (Some e, w')
      | (None, w') \<Rightarrow> (None, w'\<lparr>files := (files w')(p \<mapsto> [])\<rparr>))"

text \<open>A write to an open file appends the bytes; a failed write is taken to leave the
  file as it was.\<close>

definition append_file :: "string \<Rightarrow> bytes \<Rightarrow> (string \<rightharpoonup> bytes) \<Rightarrow> (string \<rightharpoonup> bytes)" where
  "append_file p b fs = fs(p \<mapsto> (case fs p of None \<Rightarrow> b | Some old \<Rightarrow> old @ b))"

definition file_Write :: "env \<Rightarrow> string \<Rightarrow> bytes \<Rightarrow> world \<Rightarrow> err option \<times> world" where
  "file_Write E p b w =
     (case call E (WriteFile p b) w of
        (Some e, w') \<Rightarrow> (Some e, w')
      | (None, w') \<Rightarrow> (None, w'\<lparr>files := append_file p b (files w')\<rparr>))"

definition file_Close :: "env \<Rightarrow> string \<Rightarrow> world \<Rightarrow> err option \<times> world" where
  "file_Close E p w = call E (CloseFile p) w"

text \<open>A path lies under a directory when it is the directory or continues it after a
  slash.\<close>

definition under :: "string \<Rightarrow> string \<Rightarrow> bool" where
  "under d p = (p = d \<or> take (length d + 1) p = d @ ''/'')"

text \<open>
  \<^verbatim>\<open>os.RemoveAll(p)\<close> removes \<open>p\<close> and all it contains. The program discards the
  call's result, and the removal is taken to be effective.
\<close>

definition os_RemoveAll :: "string \<Rightarrow> world \<Rightarrow> world" where
  "os_RemoveAll p w =
     w\<lparr>trace := trace w @ [(RemoveAll p, None)],
       dirs := {d \<in> dirs w. \<not> under p d},
       files := (\<lambda>f. if under p f then None else files w f)\<rparr>"

section \<open>The writers of one layer\<close>

text \<open>
  \<^verbatim>\<open>io.MultiWriter(dstTar, hash)\<close>: each write goes to the file first and, when that
  succeeded, to the hash. The state of the hash is the bytes fed to it.
\<close>

record multi_writer =
  mw_file :: string
  mw_hash :: bytes

definition io_MultiWriter :: "string \<Rightarrow> bytes \<Rightarrow> multi_writer" where
  "io_MultiWriter dstTar hash = \<lparr>mw_file = dstTar, mw_hash = hash\<rparr>"

definition mw_Write :: "env \<Rightarrow> bytes \<Rightarrow> multi_writer \<times> world \<Rightarrow> err option \<times> multi_writer \<times> world" where
  "mw_Write E b s =
     (case s of (m, w) \<Rightarrow>
        (case file_Write E (mw_file m) b w of
           (Some e, w') \<Rightarrow> (Some e, m, w')
         | (None, w') \<Rightarrow> (None, m\<lparr>mw_hash := mw_hash m @ b\<rparr>, w')))"

text \<open>
  \<^verbatim>\<open>tar.Writer\<close>: the writer below it, the padding owed after the current entry, the
  bytes of the current entry still to come, the current header, and the sticky error.
\<close>

record tar_writer =
  tw_w :: multi_writer
  tw_pad :: nat
  tw_nb :: nat
  tw_hdr :: tar_header
  tw_err :: "err option"

definition tar_NewWriter :: "multi_writer \<Rightarrow> tar_writer" where
  "tar_NewWriter m = \<lparr>tw_w = m, tw_pad = 0, tw_nb = 0, tw_hdr = zero_header, tw_err = None\<rparr>"

definition ErrWriteTooLong :: err where
  "ErrWriteTooLong = Err ''archive/tar: write too long''"

definition ErrWriteAfterClose :: err where
  "ErrWriteAfterClose = Err ''archive/tar: write after close''"

definition zeroBlock :: "nat \<Rightarrow> bytes" where
  "zeroBlock n = replicate n 0"

definition blockSize :: nat where "blockSize = 512"

definition blockPadding :: "nat \<Rightarrow> nat" where
  "blockPadding n = (blockSize - n mod blockSize) mod blockSize"

definition isHeaderOnlyType :: "char \<Rightarrow> bool" where
  "isHeaderOnlyType flag = (flag \<in> set ''123456'')"

text \<open>\<^verbatim>\<open>Flush\<close> fails while bytes of the current entry are missing, and otherwise
  writes the padding owed.\<close>

definition tw_Flush :: "env \<Rightarrow> tar_writer \<times> world \<Rightarrow> err option \<times> tar_writer \<times> world" where
  "tw_Flush E s =
     (case s of (tw, w) \<Rightarrow>
        (case tw_err tw of
           Some e \<Rightarrow> (Some e, tw, w)
         | None \<Rightarrow>
             if tw_nb tw > 0 then (Some (Err ''archive/tar: missed writing bytes''), tw, w)
             else
               (case mw_Write E (zeroBlock (tw_pad tw)) (tw_w tw, w) of
                  (Some e, m, w') \<Rightarrow> (Some e, tw\<lparr>tw_w := m, tw_err := Some e\<rparr>, w')
                | (None, m, w') \<Rightarrow> (None, tw\<lparr>tw_w := m, tw_pad := 0\<rparr>, w'))))"

text \<open>
  \<^verbatim>\<open>writeRawHeader\<close> flushes, writes the encoded header, and then expects as many
  bytes as the size says (none for a header-only type), owing the padding that fills
  the last block.
\<close>

definition tw_writeRawHeader :: "env \<Rightarrow> bytes \<Rightarrow> nat \<Rightarrow> char \<Rightarrow> tar_writer \<times> world \<Rightarrow> err option \<times> tar_writer \<times> world" where
  "tw_writeRawHeader E blk n flag s =
     (case tw_Flush E s of
        (Some e, tw, w) \<Rightarrow> (Some e, tw, w)
      | (None, tw, w) \<Rightarrow>
          (case mw_Write E blk (tw_w tw, w) of
             (Some e, m, w') \<Rightarrow> (Some e, tw\<lparr>tw_w := m\<rparr>, w')
           | (None, m, w') \<Rightarrow>
               (let n' = (if isHeaderOnlyType flag then 0 else n)
                in (None, tw\<lparr>tw_w := m, tw_nb := n', tw_pad := blockPadding n'\<rparr>, w'))))"

text \<open>
  \<^verbatim>\<open>WriteHeader\<close> flushes the entry before, keeps the header, encodes it and hands the
  encoding to \<^verbatim>\<open>writeRawHeader\<close>, whose result becomes the sticky error. A header that
  cannot be encoded in any format is an error that does not stick. The encoding is the
  one block of a header that fits the USTAR format; for a header that needs another
  format it stands for all that the library writes for it.
\<close>

definition tw_WriteHeader :: "env \<Rightarrow> tar_header \<Rightarrow> tar_writer \<times> world \<Rightarrow> err option \<times> tar_writer \<times> world" where
  "tw_WriteHeader E h s =
     (case tw_Flush E s of
        (Some e, tw, w) \<Rightarrow> (Some e, tw, w)
      | (None, tw, w) \<Rightarrow>
          (case marshal E h of
             Inl e \<Rightarrow> (Some e, tw\<lparr>tw_hdr := h\<rparr>, w)
           | Inr blk \<Rightarrow>
               (case tw_writeRawHeader E blk (hdr_Size h) (hdr_Typeflag h) (tw\<lparr>tw_hdr := h\<rparr>, w) of
                  (r, tw', w') \<Rightarrow> (r, tw'\<lparr>tw_err := r\<rparr>, w'))))"

text \<open>\<^verbatim>\<open>Write\<close> passes on at most the bytes the current entry still expects; nothing is
  written for an empty slice.\<close>

definition tw_Write :: "env \<Rightarrow> bytes \<Rightarrow> tar_writer \<times> world \<Rightarrow> err option \<times> tar_writer \<times> world" where
  "tw_Write E b s =
     (case s of (tw, w) \<Rightarrow>
        (case tw_err tw of
           Some e \<Rightarrow> (Some e, tw, w)
         | None \<Rightarrow>
             (let overwrite = (length b > tw_nb tw);
                  b' = (if overwrite then take (tw_nb tw) b else b)
              in if length b' > 0 then
                   (case mw_Write E b' (tw_w tw, w) of
                      (Some e, m, w') \<Rightarrow> (Some e, tw\<lparr>tw_w := m, tw_err := Some e\<rparr>, w')
                    | (None, m, w') \<Rightarrow>
                        (if overwrite then Some ErrWriteTooLong else None,
                         tw\<lparr>tw_w := m, tw_nb := tw_nb tw - length b'\<rparr>, w'))
                 else (if overwrite then Some ErrWriteTooLong else None, tw, w))))"

text \<open>\<^verbatim>\<open>Close\<close> flushes and writes the trailer of two zero blocks. The program never
  calls it; it is here to say what a closed archive would hold.\<close>

definition tw_Close :: "env \<Rightarrow> tar_writer \<times> world \<Rightarrow> err option \<times> tar_writer \<times> world" where
  "tw_Close E s =
     (case s of (tw, w) \<Rightarrow>
        if tw_err tw = Some ErrWriteAfterClose then (None, tw, w)
        else
          (case tw_err tw of
             Some e \<Rightarrow> (Some e, tw, w)
           | None \<Rightarrow>
               (case tw_Flush E (tw, w) of
                  (Some e, tw1, w1) \<Rightarrow> (Some e, tw1\<lparr>tw_err := Some ErrWriteAfterClose\<rparr>, w1)
                | (None, tw1, w1) \<Rightarrow>
                    (case mw_Write E (zeroBlock blockSize) (tw_w tw1, w1) of
                       (Some e, m, w2) \<Rightarrow>
                         (Some e, tw1\<lparr>tw_w := m, tw_err := Some ErrWriteAfterClose\<rparr>, w2)
                     | (None, m, w2) \<Rightarrow>
                         (case mw_Write E (zeroBlock blockSize) (m, w2) of
                            (r, m', w3) \<Rightarrow>
                              (r, tw1\<lparr>tw_w := m', tw_err := Some ErrWriteAfterClose\<rparr>, w3))))))"

section \<open>toDistTar\<close>

text \<open>
  The tar writer and the world are passed in and handed back. An error of the writer
  is returned, wrapped for the three headers and as it is for the data; a blob that
  does not open or does not read makes the function panic. The deferred
  \<^verbatim>\<open>rc.Close()\<close> of the reader leaves no mark on the world.
\<close>

definition toDistTar :: "env \<Rightarrow> string \<Rightarrow> blob \<Rightarrow> tar_writer \<times> world \<Rightarrow> err option outcome \<times> tar_writer \<times> world" where
  "toDistTar E blobSha blob s =
     (let ts = NormalizedDateTime E in
      case tw_WriteHeader E
             \<lparr>hdr_Typeflag = TypeDir, hdr_Name = path_Join [''cnb''], hdr_Mode = mode_0755,
              hdr_Size = 0, hdr_ModTime = ts\<rparr> s of
        (Some e, s1) \<Rightarrow> (Return (Some (Wrapf e ''writing buildpack id dir header'')), s1)
      | (None, s1) \<Rightarrow>
      (case tw_WriteHeader E
             \<lparr>hdr_Typeflag = TypeDir, hdr_Name = path_Join [''cnb'', ''assets''],
              hdr_Mode = mode_0755, hdr_Size = 0, hdr_ModTime = ts\<rparr> s1 of
        (Some e, s2) \<Rightarrow> (Return (Some (Wrapf e ''writing buildpack version dir header'')), s2)
      | (None, s2) \<Rightarrow>
      (case Open blob of
        Inl e \<Rightarrow> (Panic (PErr e), s2)
      | Inr rc \<Rightarrow>
      (case io_Copy rc of
        Inl e \<Rightarrow> (Panic (PErr e), s2)
      | Inr buf \<Rightarrow>
      (case tw_WriteHeader E
             \<lparr>hdr_Typeflag = TypeReg, hdr_Name = path_Join [''/cnb'', ''assets'', blobSha],
              hdr_Mode = mode_0755, hdr_Size = length buf, hdr_ModTime = ts\<rparr> s2 of
        (Some e, s3) \<Rightarrow> (Return (Some (Wrapf e ''writing buildpack version dir header'')), s3)
      | (None, s3) \<Rightarrow>
      (case tw_Write E buf s3 of (r, s4) \<Rightarrow> (Return r, s4)))))))"

section \<open>Formatting the digest\<close>

definition hex_digit :: "nat \<Rightarrow> char" where
  "hex_digit n = ''0123456789abcdef'' ! (n mod 16)"

text \<open>The verb \<^verbatim>\<open>%x\<close> on a byte slice: two lowercase hexadecimal digits per byte.\<close>

definition hex :: "bytes \<Rightarrow> string" where
  "hex bs = concat (map (\<lambda>b. [hex_digit (unat b div 16), hex_digit (unat b mod 16)]) bs)"

text \<open>\<^verbatim>\<open>v1.Hasher(name)\<close> knows one algorithm; a fresh hash has been fed nothing.\<close>

definition v1_Hasher :: "string \<Rightarrow> err + bytes" where
  "v1_Hasher name =
     (if name = ''sha256'' then Inr [] else Inl (Errorf ''unsupported hash: %q'' (Err name)))"

definition hash_Sum :: "env \<Rightarrow> bytes \<Rightarrow> bytes" where
  "hash_Sum E fed = sha256 E fed"

section \<open>The label\<close>

definition AssetLayersLabel :: string where
  "AssetLayersLabel = ''io.buildpacks.asset.layers''"

text \<open>
  \<^verbatim>\<open>AssetMetadata\<close> is a Go map from strings to assets: an association list whose keys
  are distinct, updated with \<open>AList.update\<close>. The JSON encoder writes the entries of a map
  in the order of their keys, and \<^verbatim>\<open>Encode\<close> ends its output with a newline.
\<close>

type_synonym AssetMetadata = "(string \<times> asset) list"

definition json_Encode :: "env \<Rightarrow> AssetMetadata \<Rightarrow> string" where
  "json_Encode E m =
     ''{'' @ join_with '','' (map (\<lambda>(k, a). json_key E k @ '':'' @ json_asset E a) (sort_key fst m))
       @ ''}'' @ [CHR 0x0A]"

section \<open>Save\<close>

record AssetCacheImage =
  aci_Assets :: "asset list"
  aci_AssetMap :: "string \<rightharpoonup> blob"

definition NewAssetCacheImage :: "(string \<rightharpoonup> blob) \<Rightarrow> asset list \<Rightarrow> AssetCacheImage" where
  "NewAssetCacheImage assetMap assets = \<lparr>aci_Assets = assets, aci_AssetMap = assetMap\<rparr>"

text \<open>
  What the loop of \<^verbatim>\<open>Save\<close> carries from one asset to the next: the world, the label
  under construction, and the deferred \<^verbatim>\<open>dstTar.Close()\<close> calls, the latest first
  (\<open>None\<close> for a deferred close of the nil file a failed open returns).
\<close>

record save_state =
  wld :: world
  assetLabel :: AssetMetadata
  deferred :: "string option list"

text \<open>The body of the loop, for one asset.\<close>

definition Save_iteration :: "env \<Rightarrow> string \<Rightarrow> (string \<rightharpoonup> blob) \<Rightarrow> asset \<Rightarrow> save_state \<Rightarrow> unit outcome \<times> save_state" where
  "Save_iteration E tmpDir AssetMap a st =
     (case AssetMap (Sha256 a) of
        None \<Rightarrow> (Panic (PStr ''associated asset blob does not exist''), st)
      | Some blob \<Rightarrow>
          (let layerPath = filepath_Join [tmpDir, Sha256 a] in
           case os_OpenFile E layerPath (wld st) of
             (Some e, w1) \<Rightarrow> (Panic (PErr e), st\<lparr>wld := w1, deferred := None # deferred st\<rparr>)
           | (None, w1) \<Rightarrow>
               (let st1 = st\<lparr>wld := w1, deferred := Some layerPath # deferred st\<rparr>;
                    hashAlgo = ''sha256''
                in case v1_Hasher ''sha256'' of
                     Inl e \<Rightarrow> (Panic (PErr e), st1)
                   | Inr hash \<Rightarrow>
                       (case toDistTar E (Sha256 a) blob
                               (tar_NewWriter (io_MultiWriter layerPath hash), w1) of
                          (Panic p, tw, w2) \<Rightarrow> (Panic p, st1\<lparr>wld := w2\<rparr>)
                        | (Return (Some e), tw, w2) \<Rightarrow> (Panic (PErr e), st1\<lparr>wld := w2\<rparr>)
                        | (Return None, tw, w2) \<Rightarrow>
                            (case call E (AddLayer layerPath) w2 of
                               (Some e, w3) \<Rightarrow> (Panic (PErr e), st1\<lparr>wld := w3\<rparr>)
                             | (None, w3) \<Rightarrow>
                                 (case file_Close E layerPath w3 of
                                    (Some e, w4) \<Rightarrow> (Panic (PErr e), st1\<lparr>wld := w4\<rparr>)
                                  | (None, w4) \<Rightarrow>
                                      (let a' = a\<lparr>LayerDiffID :=
                                                   hashAlgo @ '':'' @ hex (hash_Sum E (mw_hash (tw_w tw)))\<rparr>
                                       in (Return (),
                                           st1\<lparr>wld := w4,
                                               assetLabel := AList.update (Sha256 a) a' (assetLabel st1)\<rparr>))))))))"

fun Save_loop :: "env \<Rightarrow> string \<Rightarrow> (string \<rightharpoonup> blob) \<Rightarrow> asset list \<Rightarrow> save_state \<Rightarrow> unit outcome \<times> save_state" where
  "Save_loop E tmpDir AssetMap [] st = (Return (), st)"
| "Save_loop E tmpDir AssetMap (a # as) st =
     (case Save_iteration E tmpDir AssetMap a st of
        (Panic p, st') \<Rightarrow> (Panic p, st')
      | (Return u, st') \<Rightarrow> Save_loop E tmpDir AssetMap as st')"

text \<open>After the loop: encode the label, set it, save the image.\<close>

definition Save_finish :: "env \<Rightarrow> AssetMetadata \<Rightarrow> world \<Rightarrow> err option outcome \<times> world" where
  "Save_finish E label w =
     (case call E (SetLabel AssetLayersLabel (json_Encode E label)) w of
        (Some e, w1) \<Rightarrow> (Panic (PErr e), w1)
      | (None, w1) \<Rightarrow> (case call E SaveImage w1 of (r, w2) \<Rightarrow> (Return r, w2)))"

text \<open>The deferred closes run when \<^verbatim>\<open>Save\<close> is left, the latest first; their results
  are discarded, and closing the nil file does nothing.\<close>

fun run_deferred :: "env \<Rightarrow> string option list \<Rightarrow> world \<Rightarrow> world" where
  "run_deferred E [] w = w"
| "run_deferred E (None # ds) w = run_deferred E ds w"
| "run_deferred E (Some p # ds) w = run_deferred E ds (snd (file_Close E p w))"

definition Save :: "env \<Rightarrow> AssetCacheImage \<Rightarrow> world \<Rightarrow> err option outcome \<times> world" where
  "Save E a w =
     (case ioutil_TempDir E [] ''create-asset-scratch'' w of
        (Inl e, w1) \<Rightarrow> (Panic (PErr e), w1)
      | (Inr tmpDir, w1) \<Rightarrow>
          (case Save_loop E tmpDir (aci_AssetMap a) (aci_Assets a)
                  \<lparr>wld = w1, assetLabel = [], deferred = []\<rparr> of
             (r, st) \<Rightarrow>
               (case (case r of
                        Panic p \<Rightarrow> (Panic p, wld st)
                      | Return u \<Rightarrow> Save_finish E (assetLabel st) (wld st)) of
                  (res, w2) \<Rightarrow> (res, os_RemoveAll tmpDir (run_deferred E (deferred st) w2)))))"

section \<open>CreateAssetCache\<close>

record CreateAssetCacheOptions =
  ImageName :: string
  Assets :: "asset list"

definition validateConfig :: "env \<Rightarrow> CreateAssetCacheOptions \<Rightarrow> CreateAssetCacheOptions \<times> err option" where
  "validateConfig E cfg =
     (case NewTag E (ImageName cfg) of
        Inl e \<Rightarrow> (\<lparr>ImageName = [], Assets = []\<rparr>,
                  Some (Errorf ''invalid asset cache image name: %q'' e))
      | Inr tag \<Rightarrow> (\<lparr>ImageName = tag, Assets = []\<rparr>, None))"

definition downloader_Download :: "env \<Rightarrow> string \<Rightarrow> world \<Rightarrow> (err + blob) \<times> world" where
  "downloader_Download E uri w =
     (case call E (Download uri) w of
        (Some e, w') \<Rightarrow> (Inl e, w')
      | (None, w') \<Rightarrow> (Inr (downloaded E (trace w) uri), w'))"

fun downloadAssets_loop :: "env \<Rightarrow> asset list \<Rightarrow> (string \<rightharpoonup> blob) \<Rightarrow> world \<Rightarrow> ((string \<rightharpoonup> blob) \<times> err option) \<times> world" where
  "downloadAssets_loop E [] result w = ((result, None), w)"
| "downloadAssets_loop E (a # as) result w =
     (case downloader_Download E (URI a) w of
        (Inl e, w') \<Rightarrow> ((Map.empty, Some e), w')
      | (Inr b, w') \<Rightarrow> downloadAssets_loop E as (result(Sha256 a \<mapsto> b)) w')"

definition downloadAssets :: "env \<Rightarrow> asset list \<Rightarrow> world \<Rightarrow> ((string \<rightharpoonup> blob) \<times> err option) \<times> world" where
  "downloadAssets E assets w = downloadAssets_loop E assets Map.empty w"

definition imageFactory_NewImage :: "env \<Rightarrow> string \<Rightarrow> bool \<Rightarrow> world \<Rightarrow> err option \<times> world" where
  "imageFactory_NewImage E repoName local w = call E (NewImage repoName local) w"

definition CreateAssetCache :: "env \<Rightarrow> CreateAssetCacheOptions \<Rightarrow> world \<Rightarrow> err option outcome \<times> world" where
  "CreateAssetCache E opts w =
     (case validateConfig E opts of
        (validOpts, Some e) \<Rightarrow> (Return (Some e), w)
      | (validOpts, None) \<Rightarrow>
          (case imageFactory_NewImage E (ImageName validOpts) True w of
             (Some e, w1) \<Rightarrow>
               (Return (Some (Errorf ''unable to create asset cache image: %q'' e)), w1)
           | (None, w1) \<Rightarrow>
               (case downloadAssets E (Assets opts) w1 of
                  ((assetMap, Some e), w2) \<Rightarrow> (Panic (PErr e), w2)
                | ((assetMap, None), w2) \<Rightarrow>
                    Save E (NewAssetCacheImage assetMap (Assets opts)) w2)))"

section \<open>The command: getAssets\<close>

text \<open>
  \<^verbatim>\<open>getAssets\<close> (package commands) prepares the list the command hands to
  \<open>CreateAssetCache\<close>. The assets of all buildpacks are put into a map keyed by
  \<open>Sha256\<close>, a later asset replacing an earlier one with the same hash. The values of
  the map are then collected in the order in which Go ranges over a map, which the
  language leaves open, and sorted by \<open>ID\<close> with \<^verbatim>\<open>sort.Slice\<close>, which is not stable.
  What the function returns is therefore given as a relation: any list that holds
  exactly the values of the map and is sorted by \<open>ID\<close>. Of \<^verbatim>\<open>BuildpackInfo\<close> only the
  asset lists of its buildpacks are read, so the argument is the list of these lists.
\<close>

definition getAssets_assetMap :: "asset list list \<Rightarrow> AssetMetadata" where
  "getAssets_assetMap buildpacks =
     fold (\<lambda>bp m. fold (\<lambda>a. AList.update (Sha256 a) a) bp m) buildpacks []"

definition getAssets_returns :: "asset list list \<Rightarrow> asset list \<Rightarrow> bool" where
  "getAssets_returns buildpacks result \<longleftrightarrow>
     mset result = mset (map snd (getAssets_assetMap buildpacks)) \<and> sorted (map ID result)"

section \<open>Reading a trace\<close>

text \<open>What a trace says the build did: the URIs fetched, the layer files opened for
  packing, the layer files attached, the labels set, and the results of saving the
  image.\<close>

fun fetch_of :: "event \<times> err option \<Rightarrow> string list" where
  "fetch_of (Download u, r) = [u]"
| "fetch_of _ = []"

fun pack_of :: "event \<times> err option \<Rightarrow> string list" where
  "pack_of (OpenFile p, r) = [p]"
| "pack_of _ = []"

fun layer_of :: "event \<times> err option \<Rightarrow> string list" where
  "layer_of (AddLayer p, r) = [p]"
| "layer_of _ = []"

fun label_of :: "event \<times> err option \<Rightarrow> (string \<times> string) list" where
  "label_of (SetLabel k v, r) = [(k, v)]"
| "label_of _ = []"

fun save_of :: "event \<times> err option \<Rightarrow> err option list" where
  "save_of (SaveImage, r) = [r]"
| "save_of _ = []"

definition fetches :: "trace \<Rightarrow> string list" where
  "fetches t = concat (map fetch_of t)"

definition packs :: "trace \<Rightarrow> string list" where
  "packs t = concat (map pack_of t)"

definition layers_added :: "trace \<Rightarrow> string list" where
  "layers_added t = concat (map layer_of t)"

definition labels_set :: "trace \<Rightarrow> (string \<times> string) list" where
  "labels_set t = concat (map label_of t)"

definition saves :: "trace \<Rightarrow> err option list" where
  "saves t = concat (map save_of t)"

text \<open>The failures after which the build cannot go on: a failed fetch, and a failed
  step of packing, attaching or labelling.\<close>

fun fatal :: "event \<Rightarrow> bool" where
  "fatal (Download u) = True"
| "fatal (TempDir d p) = True"
| "fatal (OpenFile p) = True"
| "fatal (WriteFile p b) = True"
| "fatal (AddLayer p) = True"
| "fatal (SetLabel k v) = True"
| "fatal _ = False"

section \<open>What a successful pack produces\<close>

text \<open>The bytes of a blob that opens and reads without error.\<close>

definition blob_bytes :: "blob \<Rightarrow> bytes option" where
  "blob_bytes b =
     (case Open b of
        Inl e \<Rightarrow> None
      | Inr rc \<Rightarrow> (case io_Copy rc of Inl e \<Rightarrow> None | Inr data \<Rightarrow> Some data))"

text \<open>
  The stream the layout of the layer describes: the encodings of a directory header
  \<^verbatim>\<open>cnb\<close>, a directory header \<^verbatim>\<open>cnb/assets\<close> and a regular-file header for the asset,
  followed by the data, and nothing after it.
\<close>

definition packed_stream :: "env \<Rightarrow> string \<Rightarrow> bytes \<Rightarrow> bytes option" where
  "packed_stream E sha data =
     (case marshal E \<lparr>hdr_Typeflag = TypeDir, hdr_Name = path_Join [''cnb''],
                      hdr_Mode = mode_0755, hdr_Size = 0,
                      hdr_ModTime = NormalizedDateTime E\<rparr> of
        Inl e \<Rightarrow> None
      | Inr m1 \<Rightarrow>
     (case marshal E \<lparr>hdr_Typeflag = TypeDir, hdr_Name = path_Join [''cnb'', ''assets''],
                      hdr_Mode = mode_0755, hdr_Size = 0,
                      hdr_ModTime = NormalizedDateTime E\<rparr> of
        Inl e \<Rightarrow> None
      | Inr m2 \<Rightarrow>
     (case marshal E \<lparr>hdr_Typeflag = TypeReg,
                      hdr_Name = path_Join [''/cnb'', ''assets'', sha],
                      hdr_Mode = mode_0755, hdr_Size = length data,
                      hdr_ModTime = NormalizedDateTime E\<rparr> of
        Inl e \<Rightarrow> None
      | Inr m3 \<Rightarrow> Some (m1 @ m2 @ m3 @ data))))"

definition diff_id :: "env \<Rightarrow> bytes \<Rightarrow> string" where
  "diff_id E stream = ''sha256:'' @ hex (sha256 E stream)"

text \<open>The asset as it enters the label once its blob has been packed.\<close>

definition labelled :: "env \<Rightarrow> (string \<rightharpoonup> blob) \<Rightarrow> asset \<Rightarrow> asset" where
  "labelled E M a =
     (case M (Sha256 a) of
        None \<Rightarrow> a
      | Some blob \<Rightarrow>
          (case blob_bytes blob of
             None \<Rightarrow> a
           | Some data \<Rightarrow>
               (case packed_stream E (Sha256 a) data of
                  None \<Rightarrow> a
                | Some stream \<Rightarrow> a\<lparr>LayerDiffID := diff_id E stream\<rparr>)))"

definition layerPath :: "string \<Rightarrow> asset \<Rightarrow> string" where
  "layerPath tmpDir a = filepath_Join [tmpDir, Sha256 a]"

section \<open>Auxiliary notions for the proofs\<close>

text \<open>An asset can be packed when its blob is there, opens and reads, and the headers of
  its layer can be encoded.\<close>

definition packable :: "env \<Rightarrow> (string \<rightharpoonup> blob) \<Rightarrow> asset \<Rightarrow> bool" where
  "packable E M a \<longleftrightarrow> (\<exists>blob data stream. M (Sha256 a) = Some blob \<and> blob_bytes blob = Some data
      \<and> packed_stream E (Sha256 a) data = Some stream)"

text \<open>The label a build leaves when every asset of the list has been packed, and the
  blobs a downloader hands out when what it returns depends on the URI alone.\<close>

definition final_label :: "env \<Rightarrow> (string \<rightharpoonup> blob) \<Rightarrow> asset list \<Rightarrow> AssetMetadata" where
  "final_label E M assets = fold (\<lambda>x. AList.update (Sha256 x) (labelled E M x)) assets []"

definition fetched :: "(string \<Rightarrow> blob) \<Rightarrow> asset list \<Rightarrow> (string \<rightharpoonup> blob)" where
  "fetched D assets = fold (\<lambda>a m. m(Sha256 a \<mapsto> D (URI a))) assets Map.empty"

text \<open>
  What the packing of layers adds to a trace: no fetch and no save of the image; only
  the last event can be a failed one; and no event has failed when the step went well
  (the flag).
\<close>

definition packing :: "bool \<Rightarrow> world \<Rightarrow> world \<Rightarrow> bool" where
  "packing ok w w' \<longleftrightarrow>
     (\<exists>ts. trace w' = trace w @ ts
        \<and> (\<forall>x\<in>set (butlast ts). snd x = None)
        \<and> (ok \<longrightarrow> (\<forall>x\<in>set ts. snd x = None))
        \<and> fetches ts = [] \<and> saves ts = [])"

section \<open>Concrete inputs\<close>

text \<open>
  An environment in which nothing fails: the name parser rejects \<^verbatim>\<open>::::\<close> and returns
  every other name as it is, every download yields a small readable blob, and the
  library functions are simple stand-ins.
\<close>

definition E0 :: env where
  "E0 = \<lparr>NewTag = (\<lambda>n. if n = ''::::'' then Inl (Err ''could not parse reference'') else Inr n),
          fails = (\<lambda>t ev. None),
          downloaded = (\<lambda>t uri. Blob (Inr (Reader (Inr [of_nat (length uri), 7])))),
          tempdir = (\<lambda>t. ''/tmp/create-asset-scratch1''),
          sha256 = (\<lambda>bs. [of_nat (length bs)]),
          marshal = (\<lambda>h. Inr [of_nat (length (hdr_Name h)), of_nat (hdr_Size h)]),
          json_key = (\<lambda>k. k),
          json_asset = (\<lambda>a. ID a @ ''='' @ LayerDiffID a),
          NormalizedDateTime = 315532801\<rparr>"


text \<open>The same environment with an image that refuses every layer.\<close>

definition E_layer_fails :: env where
  "E_layer_fails =
     E0\<lparr>fails := (\<lambda>t ev. case ev of AddLayer p \<Rightarrow> Some (Err ''layer refused'') | _ \<Rightarrow> None)\<rparr>"

definition w0 :: world where
  "w0 = \<lparr>trace = [], dirs = {}, files = Map.empty\<rparr>"

text \<open>The two assets of the test of the repository, and a third that shares the hash of
  the first.\<close>

definition first_asset :: asset where
  "first_asset = \<lparr>ID = ''first-asset'', Name = ''First Asset'', Version = ''1.2.3'',
     Sha256 = ''first-sha256'', URI = ''https://first-asset-uri'',
     Stacks = [''io.buildpacks.stacks.bionic''], LayerDiffID = []\<rparr>"

definition second_asset :: asset where
  "second_asset = \<lparr>ID = ''second-asset'', Name = ''Second Asset'', Version = ''4.5.6'',
     Sha256 = ''second-sha256'', URI = ''https://second-asset-uri'',
     Stacks = [''io.buildpacks.stacks.bionic''], LayerDiffID = []\<rparr>"

definition other_asset :: asset where
  "other_asset = \<lparr>ID = ''other-asset'', Name = ''Other Asset'', Version = ''7.8.9'',
     Sha256 = ''first-sha256'', URI = ''https://other-asset-uri'',
     Stacks = [''io.buildpacks.stacks.bionic''], LayerDiffID = []\<rparr>"

text \<open>A readable blob of three bytes, and the state in which the loop of \<open>Save\<close>
  starts.\<close>

definition first_blob :: blob where
  "first_blob = Blob (Inr (Reader (Inr [1, 2, 3])))"

definition st0 :: save_state where
  "st0 = \<lparr>wld = w0, assetLabel = [], deferred = []\<rparr>"

section \<open>Lemmas\<close>







lemma length_hex: "length (hex bs) = 2 * length bs"
  by (induction bs) (simp_all add: hex_def)

lemma hex_digit_in: "hex_digit n \<in> set ''0123456789abcdef''"
proof -
  have "n mod 16 < length ''0123456789abcdef''" by simp
  then show ?thesis unfolding hex_digit_def by (rule nth_mem)
qed

lemma set_hex: "set (hex bs) \<subseteq> set ''0123456789abcdef''"
proof
  fix c assume "c \<in> set (hex bs)"
  then obtain n where "c = hex_digit n" by (auto simp: hex_def)
  then show "c \<in> set ''0123456789abcdef''" using hex_digit_in by blast
qed



lemma append_file_append: "append_file p b2 (append_file p b1 fs) = append_file p (b1 @ b2) fs"
  by (auto simp: append_file_def split: option.splits)

lemma call_eq: "call E ev w = (r, w') \<longleftrightarrow> r = fails E (trace w) ev \<and> w' = w\<lparr>trace := trace w @ [(ev, r)]\<rparr>"
  by (auto simp: call_def Let_def)

lemma mw_Write_None:
  "mw_Write E b (m, w) = (None, m', w') \<Longrightarrow>
     mw_hash m' = mw_hash m @ b \<and> mw_file m' = mw_file m
     \<and> trace w' = trace w @ [(WriteFile (mw_file m) b, None)]
     \<and> dirs w' = dirs w \<and> files w' = append_file (mw_file m) b (files w)"
  by (auto simp: mw_Write_def file_Write_def call_eq split: prod.splits option.splits)

lemma tw_Flush_None:
  "tw_Flush E (tw, w) = (None, tw', w') \<Longrightarrow>
    tw_err tw = None \<and> tw_nb tw = 0 \<and> tw_err tw' = None \<and> tw_nb tw' = 0 \<and> tw_pad tw' = 0
    \<and> tw_hdr tw' = tw_hdr tw
    \<and> mw_hash (tw_w tw') = mw_hash (tw_w tw) @ zeroBlock (tw_pad tw)
    \<and> mw_file (tw_w tw') = mw_file (tw_w tw)
    \<and> trace w' = trace w @ [(WriteFile (mw_file (tw_w tw)) (zeroBlock (tw_pad tw)), None)]
    \<and> dirs w' = dirs w
    \<and> files w' = append_file (mw_file (tw_w tw)) (zeroBlock (tw_pad tw)) (files w)"
  by (auto simp: tw_Flush_def split: prod.splits option.splits if_splits dest!: mw_Write_None)

lemma tw_writeRawHeader_None:
  "tw_writeRawHeader E blk n flag (tw, w) = (None, tw', w') \<Longrightarrow>
      mw_hash (tw_w tw') = mw_hash (tw_w tw) @ zeroBlock (tw_pad tw) @ blk
    \<and> trace w' = trace w @ [(WriteFile (mw_file (tw_w tw)) (zeroBlock (tw_pad tw)), None),
                             (WriteFile (mw_file (tw_w tw)) blk, None)]
    \<and> files w' = append_file (mw_file (tw_w tw)) (zeroBlock (tw_pad tw) @ blk) (files w)
    \<and> tw_err tw = None \<and> tw_nb tw = 0 \<and> tw_err tw' = None
    \<and> tw_hdr tw' = tw_hdr tw
    \<and> tw_nb tw' = (if isHeaderOnlyType flag then 0 else n)
    \<and> tw_pad tw' = blockPadding (if isHeaderOnlyType flag then 0 else n)
    \<and> mw_file (tw_w tw') = mw_file (tw_w tw)
    \<and> dirs w' = dirs w"
  by (auto simp: tw_writeRawHeader_def Let_def append_file_append
      split: prod.splits option.splits if_splits
      dest!: mw_Write_None tw_Flush_None)

lemma tw_WriteHeader_None:
  "tw_WriteHeader E h (tw, w) = (None, tw', w') \<Longrightarrow>
    (\<exists>blk. marshal E h = Inr blk
      \<and> mw_hash (tw_w tw') = mw_hash (tw_w tw) @ zeroBlock (tw_pad tw) @ blk
      \<and> trace w' = trace w @ [(WriteFile (mw_file (tw_w tw)) (zeroBlock (tw_pad tw)), None),
                               (WriteFile (mw_file (tw_w tw)) [], None),
                               (WriteFile (mw_file (tw_w tw)) blk, None)]
      \<and> files w' = append_file (mw_file (tw_w tw)) (zeroBlock (tw_pad tw) @ blk) (files w))
    \<and> tw_err tw = None \<and> tw_nb tw = 0 \<and> tw_err tw' = None
    \<and> tw_hdr tw' = h
    \<and> tw_nb tw' = (if isHeaderOnlyType (hdr_Typeflag h) then 0 else hdr_Size h)
    \<and> tw_pad tw' = blockPadding (if isHeaderOnlyType (hdr_Typeflag h) then 0 else hdr_Size h)
    \<and> mw_file (tw_w tw') = mw_file (tw_w tw)
    \<and> dirs w' = dirs w"
proof -
  assume a: "tw_WriteHeader E h (tw, w) = (None, tw', w')"
  then obtain tw1 w1 where f: "tw_Flush E (tw, w) = (None, tw1, w1)"
    by (auto simp: tw_WriteHeader_def split: prod.splits option.splits)
  from a f obtain blk where m: "marshal E h = Inr blk"
    by (auto simp: tw_WriteHeader_def split: prod.splits option.splits sum.splits)
  from a f m obtain tw2 where
    r: "tw_writeRawHeader E blk (hdr_Size h) (hdr_Typeflag h) (tw1\<lparr>tw_hdr := h\<rparr>, w1) = (None, tw2, w')"
    and t: "tw' = tw2\<lparr>tw_err := None\<rparr>"
    by (auto simp: tw_WriteHeader_def split: prod.splits option.splits sum.splits)
  note F = tw_Flush_None [OF f]
  note R = tw_writeRawHeader_None [OF r]
  have z: "zeroBlock 0 = []" by (simp add: zeroBlock_def)
  have "mw_hash (tw_w tw') = mw_hash (tw_w tw) @ zeroBlock (tw_pad tw) @ blk"
    using F R t by (simp add: z)
  moreover have "trace w' = trace w @ [(WriteFile (mw_file (tw_w tw)) (zeroBlock (tw_pad tw)), None),
                               (WriteFile (mw_file (tw_w tw)) [], None),
                               (WriteFile (mw_file (tw_w tw)) blk, None)]"
    using F R by (simp add: z)
  moreover have "files w' = append_file (mw_file (tw_w tw)) (zeroBlock (tw_pad tw) @ blk) (files w)"
    using F R by (simp add: z append_file_append)
  moreover have "tw_err tw = None \<and> tw_nb tw = 0 \<and> tw_err tw' = None \<and> tw_hdr tw' = h
    \<and> tw_nb tw' = (if isHeaderOnlyType (hdr_Typeflag h) then 0 else hdr_Size h)
    \<and> tw_pad tw' = blockPadding (if isHeaderOnlyType (hdr_Typeflag h) then 0 else hdr_Size h)
    \<and> mw_file (tw_w tw') = mw_file (tw_w tw) \<and> dirs w' = dirs w"
    using F R t by simp
  ultimately show ?thesis using m by blast
qed

lemma tw_Write_None:
  "tw_Write E b (tw, w) = (None, tw', w') \<Longrightarrow>
    length b \<le> tw_nb tw \<and> tw_err tw = None \<and> tw_err tw' = None
    \<and> tw_nb tw' = tw_nb tw - length b \<and> tw_pad tw' = tw_pad tw \<and> tw_hdr tw' = tw_hdr tw
    \<and> mw_hash (tw_w tw') = mw_hash (tw_w tw) @ b
    \<and> mw_file (tw_w tw') = mw_file (tw_w tw)
    \<and> trace w' = trace w @ (if b = [] then [] else [(WriteFile (mw_file (tw_w tw)) b, None)])
    \<and> dirs w' = dirs w
    \<and> files w' = (if b = [] then files w else append_file (mw_file (tw_w tw)) b (files w))"
  by (auto simp: tw_Write_def Let_def split: prod.splits option.splits if_splits
      dest!: mw_Write_None)


lemma header_only_simps [simp]: "isHeaderOnlyType TypeDir" "\<not> isHeaderOnlyType TypeReg"
  by (simp_all add: isHeaderOnlyType_def TypeDir_def TypeReg_def)

lemma blockPadding_0 [simp]: "blockPadding 0 = 0"
  by (simp add: blockPadding_def blockSize_def)

lemma zeroBlock_0 [simp]: "zeroBlock 0 = []"
  by (simp add: zeroBlock_def)

lemma toDistTar_None:
  assumes "toDistTar E sha blob (tw, w) = (Return None, tw', w')" and "tw_pad tw = 0"
  shows "\<exists>rc data m1 m2 m3.
      Open blob = Inr rc \<and> io_Copy rc = Inr data
    \<and> marshal E \<lparr>hdr_Typeflag = TypeDir, hdr_Name = path_Join [''cnb''], hdr_Mode = mode_0755,
                  hdr_Size = 0, hdr_ModTime = NormalizedDateTime E\<rparr> = Inr m1
    \<and> marshal E \<lparr>hdr_Typeflag = TypeDir, hdr_Name = path_Join [''cnb'', ''assets''],
                  hdr_Mode = mode_0755, hdr_Size = 0, hdr_ModTime = NormalizedDateTime E\<rparr> = Inr m2
    \<and> marshal E \<lparr>hdr_Typeflag = TypeReg, hdr_Name = path_Join [''/cnb'', ''assets'', sha],
                  hdr_Mode = mode_0755, hdr_Size = length data,
                  hdr_ModTime = NormalizedDateTime E\<rparr> = Inr m3
    \<and> mw_hash (tw_w tw') = mw_hash (tw_w tw) @ m1 @ m2 @ m3 @ data
    \<and> files w' = append_file (mw_file (tw_w tw)) (m1 @ m2 @ m3 @ data) (files w)
    \<and> trace w' = trace w @
         map (\<lambda>b. (WriteFile (mw_file (tw_w tw)) b, None))
           ([[], [], m1, [], [], m2, [], [], m3] @ (if data = [] then [] else [data]))
    \<and> dirs w' = dirs w
    \<and> tw_pad tw' = blockPadding (length data) \<and> tw_nb tw' = 0 \<and> tw_err tw' = None
    \<and> mw_file (tw_w tw') = mw_file (tw_w tw)
    \<and> tw_hdr tw' = \<lparr>hdr_Typeflag = TypeReg, hdr_Name = path_Join [''/cnb'', ''assets'', sha],
                  hdr_Mode = mode_0755, hdr_Size = length data,
                  hdr_ModTime = NormalizedDateTime E\<rparr>"
proof -
  let ?ts = "NormalizedDateTime E"
  let ?h1 = "\<lparr>hdr_Typeflag = TypeDir, hdr_Name = path_Join [''cnb''], hdr_Mode = mode_0755,
                  hdr_Size = 0, hdr_ModTime = ?ts\<rparr>"
  let ?h2 = "\<lparr>hdr_Typeflag = TypeDir, hdr_Name = path_Join [''cnb'', ''assets''],
                  hdr_Mode = mode_0755, hdr_Size = 0, hdr_ModTime = ?ts\<rparr>"
  from assms(1) obtain tw1 w1 where s1: "tw_WriteHeader E ?h1 (tw, w) = (None, tw1, w1)"
    by (auto simp: toDistTar_def Let_def split: prod.splits option.splits)
  from assms(1) s1 obtain tw2 w2 where s2: "tw_WriteHeader E ?h2 (tw1, w1) = (None, tw2, w2)"
    by (auto simp: toDistTar_def Let_def split: prod.splits option.splits)
  from assms(1) s1 s2 obtain rc data where rc: "Open blob = Inr rc" "io_Copy rc = Inr data"
    by (auto simp: toDistTar_def Let_def split: prod.splits option.splits sum.splits)
  let ?h3 = "\<lparr>hdr_Typeflag = TypeReg, hdr_Name = path_Join [''/cnb'', ''assets'', sha],
                  hdr_Mode = mode_0755, hdr_Size = length data, hdr_ModTime = ?ts\<rparr>"
  from assms(1) s1 s2 rc obtain tw3 w3 where s3: "tw_WriteHeader E ?h3 (tw2, w2) = (None, tw3, w3)"
    by (auto simp: toDistTar_def Let_def split: prod.splits option.splits sum.splits)
  from assms(1) s1 s2 rc s3 have s4: "tw_Write E data (tw3, w3) = (None, tw', w')"
    by (auto simp: toDistTar_def Let_def split: prod.splits option.splits sum.splits)
  note f1 = tw_WriteHeader_None [OF s1]
  note f2 = tw_WriteHeader_None [OF s2]
  note f3 = tw_WriteHeader_None [OF s3]
  note f4 = tw_Write_None [OF s4]
  from f1 obtain m1 where m1: "marshal E ?h1 = Inr m1"
    "mw_hash (tw_w tw1) = mw_hash (tw_w tw) @ m1"
    "trace w1 = trace w @ [(WriteFile (mw_file (tw_w tw)) [], None),
        (WriteFile (mw_file (tw_w tw)) [], None), (WriteFile (mw_file (tw_w tw)) m1, None)]"
    "files w1 = append_file (mw_file (tw_w tw)) m1 (files w)"
    using assms(2) by auto
  from f1 have p1: "tw_pad tw1 = 0" "mw_file (tw_w tw1) = mw_file (tw_w tw)" "dirs w1 = dirs w"
    by auto
  from f2 p1 obtain m2 where m2: "marshal E ?h2 = Inr m2"
    "mw_hash (tw_w tw2) = mw_hash (tw_w tw1) @ m2"
    "trace w2 = trace w1 @ [(WriteFile (mw_file (tw_w tw)) [], None),
        (WriteFile (mw_file (tw_w tw)) [], None), (WriteFile (mw_file (tw_w tw)) m2, None)]"
    "files w2 = append_file (mw_file (tw_w tw)) m2 (files w1)"
    by auto
  from f2 p1 have p2: "tw_pad tw2 = 0" "mw_file (tw_w tw2) = mw_file (tw_w tw)" "dirs w2 = dirs w"
    by auto
  from f3 p2 obtain m3 where m3: "marshal E ?h3 = Inr m3"
    "mw_hash (tw_w tw3) = mw_hash (tw_w tw2) @ m3"
    "trace w3 = trace w2 @ [(WriteFile (mw_file (tw_w tw)) [], None),
        (WriteFile (mw_file (tw_w tw)) [], None), (WriteFile (mw_file (tw_w tw)) m3, None)]"
    "files w3 = append_file (mw_file (tw_w tw)) m3 (files w2)"
    by auto
  from f3 p2 have p3: "tw_pad tw3 = blockPadding (length data)" "tw_nb tw3 = length data"
    "mw_file (tw_w tw3) = mw_file (tw_w tw)" "dirs w3 = dirs w" "tw_hdr tw3 = ?h3"
    by auto
  from f4 p3 have p4: "mw_hash (tw_w tw') = mw_hash (tw_w tw3) @ data"
    "trace w' = trace w3 @ (if data = [] then [] else [(WriteFile (mw_file (tw_w tw)) data, None)])"
    "files w' = (if data = [] then files w3 else append_file (mw_file (tw_w tw)) data (files w3))"
    "dirs w' = dirs w" "tw_pad tw' = blockPadding (length data)" "tw_nb tw' = 0"
    "tw_err tw' = None" "mw_file (tw_w tw') = mw_file (tw_w tw)" "tw_hdr tw' = ?h3"
    by auto
  have files: "files w' = append_file (mw_file (tw_w tw)) (m1 @ m2 @ m3 @ data) (files w)"
    using p4(3) m3(4) m2(4) m1(4) by (simp add: append_file_append)
  have tr: "trace w' = trace w @
         map (\<lambda>b. (WriteFile (mw_file (tw_w tw)) b, None))
           ([[], [], m1, [], [], m2, [], [], m3] @ (if data = [] then [] else [data]))"
    using p4(2) m3(3) m2(3) m1(3) by simp
  have hs: "mw_hash (tw_w tw') = mw_hash (tw_w tw) @ m1 @ m2 @ m3 @ data"
    using p4(1) m3(2) m2(2) m1(2) by simp
  show ?thesis
    using rc m1(1) m2(1) m3(1) hs files tr p4(4-9) by blast
qed




lemma proj_append [simp]:
  "fetches (s @ t) = fetches s @ fetches t"
  "packs (s @ t) = packs s @ packs t"
  "layers_added (s @ t) = layers_added s @ layers_added t"
  "labels_set (s @ t) = labels_set s @ labels_set t"
  "saves (s @ t) = saves s @ saves t"
  by (simp_all add: fetches_def packs_def layers_added_def labels_set_def saves_def)

lemma proj_Nil [simp]:
  "fetches [] = []" "packs [] = []" "layers_added [] = []" "labels_set [] = []" "saves [] = []"
  by (simp_all add: fetches_def packs_def layers_added_def labels_set_def saves_def)

lemma proj_Cons [simp]:
  "fetches (x # t) = fetch_of x @ fetches t"
  "packs (x # t) = pack_of x @ packs t"
  "layers_added (x # t) = layer_of x @ layers_added t"
  "labels_set (x # t) = label_of x @ labels_set t"
  "saves (x # t) = save_of x @ saves t"
  by (simp_all add: fetches_def packs_def layers_added_def labels_set_def saves_def)

lemma proj_writes [simp]:
  "fetches (map (\<lambda>b. (WriteFile p b, r)) bs) = []"
  "packs (map (\<lambda>b. (WriteFile p b, r)) bs) = []"
  "layers_added (map (\<lambda>b. (WriteFile p b, r)) bs) = []"
  "labels_set (map (\<lambda>b. (WriteFile p b, r)) bs) = []"
  "saves (map (\<lambda>b. (WriteFile p b, r)) bs) = []"
  by (induction bs) simp_all

lemma append_file_fresh: "append_file p b (fs(p \<mapsto> [])) = fs(p \<mapsto> b)"
  by (simp add: append_file_def)

lemma packed_stream_Some:
  "marshal E \<lparr>hdr_Typeflag = TypeDir, hdr_Name = path_Join [''cnb''], hdr_Mode = mode_0755,
                  hdr_Size = 0, hdr_ModTime = NormalizedDateTime E\<rparr> = Inr m1 \<Longrightarrow>
   marshal E \<lparr>hdr_Typeflag = TypeDir, hdr_Name = path_Join [''cnb'', ''assets''],
                  hdr_Mode = mode_0755, hdr_Size = 0, hdr_ModTime = NormalizedDateTime E\<rparr> = Inr m2 \<Longrightarrow>
   marshal E \<lparr>hdr_Typeflag = TypeReg, hdr_Name = path_Join [''/cnb'', ''assets'', sha],
                  hdr_Mode = mode_0755, hdr_Size = length data,
                  hdr_ModTime = NormalizedDateTime E\<rparr> = Inr m3 \<Longrightarrow>
   packed_stream E sha data = Some (m1 @ m2 @ m3 @ data)"
  by (simp add: packed_stream_def)

lemma Save_iteration_Return_explicit:
  assumes "Save_iteration E tmpDir M a st = (Return u, st')"
  shows "\<exists>blob data m1 m2 m3.
      M (Sha256 a) = Some blob \<and> blob_bytes blob = Some data
    \<and> marshal E \<lparr>hdr_Typeflag = TypeDir, hdr_Name = path_Join [''cnb''], hdr_Mode = mode_0755,
                  hdr_Size = 0, hdr_ModTime = NormalizedDateTime E\<rparr> = Inr m1
    \<and> marshal E \<lparr>hdr_Typeflag = TypeDir, hdr_Name = path_Join [''cnb'', ''assets''],
                  hdr_Mode = mode_0755, hdr_Size = 0, hdr_ModTime = NormalizedDateTime E\<rparr> = Inr m2
    \<and> marshal E \<lparr>hdr_Typeflag = TypeReg, hdr_Name = path_Join [''/cnb'', ''assets'', Sha256 a],
                  hdr_Mode = mode_0755, hdr_Size = length data,
                  hdr_ModTime = NormalizedDateTime E\<rparr> = Inr m3
    \<and> files (wld st') = (files (wld st))(layerPath tmpDir a \<mapsto> m1 @ m2 @ m3 @ data)
    \<and> dirs (wld st') = dirs (wld st)
    \<and> trace (wld st') = trace (wld st) @ [(OpenFile (layerPath tmpDir a), None)]
         @ map (\<lambda>b. (WriteFile (layerPath tmpDir a) b, None))
             ([[], [], m1, [], [], m2, [], [], m3] @ (if data = [] then [] else [data]))
         @ [(AddLayer (layerPath tmpDir a), None), (CloseFile (layerPath tmpDir a), None)]
    \<and> assetLabel st' = AList.update (Sha256 a)
          (a\<lparr>LayerDiffID := ''sha256:'' @ hex (sha256 E (m1 @ m2 @ m3 @ data))\<rparr>) (assetLabel st)
    \<and> deferred st' = Some (layerPath tmpDir a) # deferred st"
proof -
  let ?lp = "layerPath tmpDir a"
  from assms obtain blob where blob: "M (Sha256 a) = Some blob"
    by (auto simp: Save_iteration_def split: option.splits)
  from assms blob obtain w1 where w1: "os_OpenFile E ?lp (wld st) = (None, w1)"
    by (auto simp: Save_iteration_def layerPath_def Let_def split: option.splits prod.splits)
  let ?tw = "tar_NewWriter (io_MultiWriter ?lp [])"
  from assms blob w1 obtain tw w2 where td: "toDistTar E (Sha256 a) blob (?tw, w1) = (Return None, tw, w2)"
    by (auto simp: Save_iteration_def layerPath_def Let_def v1_Hasher_def
        split: option.splits prod.splits outcome.splits)
  from assms blob w1 td obtain w3 where w3: "call E (AddLayer ?lp) w2 = (None, w3)"
    by (auto simp: Save_iteration_def layerPath_def Let_def v1_Hasher_def
        split: option.splits prod.splits outcome.splits)
  from assms blob w1 td w3 obtain w4 where w4: "file_Close E ?lp w3 = (None, w4)"
    by (auto simp: Save_iteration_def layerPath_def Let_def v1_Hasher_def
        split: option.splits prod.splits outcome.splits)
  from assms blob w1 td w3 w4 have st': "st' = st\<lparr>wld := w4, deferred := Some ?lp # deferred st,
      assetLabel := AList.update (Sha256 a)
         (a\<lparr>LayerDiffID := ''sha256'' @ '':'' @ hex (hash_Sum E (mw_hash (tw_w tw)))\<rparr>) (assetLabel st)\<rparr>"
    by (auto simp: Save_iteration_def layerPath_def Let_def v1_Hasher_def
        split: option.splits prod.splits outcome.splits)
  have pad0: "tw_pad ?tw = 0" by (simp add: tar_NewWriter_def)
  from toDistTar_None [OF td pad0] obtain rc data m1 m2 m3 where
    d: "Open blob = Inr rc" "io_Copy rc = Inr data"
    and mm: "marshal E \<lparr>hdr_Typeflag = TypeDir, hdr_Name = path_Join [''cnb''], hdr_Mode = mode_0755,
                  hdr_Size = 0, hdr_ModTime = NormalizedDateTime E\<rparr> = Inr m1"
      "marshal E \<lparr>hdr_Typeflag = TypeDir, hdr_Name = path_Join [''cnb'', ''assets''],
                  hdr_Mode = mode_0755, hdr_Size = 0, hdr_ModTime = NormalizedDateTime E\<rparr> = Inr m2"
      "marshal E \<lparr>hdr_Typeflag = TypeReg, hdr_Name = path_Join [''/cnb'', ''assets'', Sha256 a],
                  hdr_Mode = mode_0755, hdr_Size = length data,
                  hdr_ModTime = NormalizedDateTime E\<rparr> = Inr m3"
    and h: "mw_hash (tw_w tw) = m1 @ m2 @ m3 @ data"
    and f2: "files w2 = append_file ?lp (m1 @ m2 @ m3 @ data) (files w1)"
    and t2: "trace w2 = trace w1 @ map (\<lambda>b. (WriteFile ?lp b, None))
           ([[], [], m1, [], [], m2, [], [], m3] @ (if data = [] then [] else [data]))"
    and d2: "dirs w2 = dirs w1"
    by (auto simp: tar_NewWriter_def io_MultiWriter_def)
  from w1 have o1: "files w1 = (files (wld st))(?lp \<mapsto> [])" "dirs w1 = dirs (wld st)"
    "trace w1 = trace (wld st) @ [(OpenFile ?lp, None)]"
    by (auto simp: os_OpenFile_def call_eq split: option.splits prod.splits)
  from w3 w4 have o4: "files w4 = files w2" "dirs w4 = dirs w2"
    "trace w4 = trace w2 @ [(AddLayer ?lp, None), (CloseFile ?lp, None)]"
    by (auto simp: file_Close_def call_eq)
  let ?ws = "[[], [], m1, [], [], m2, [], [], m3] @ (if data = [] then [] else [data])"
  have bb: "blob_bytes blob = Some data" using d by (simp add: blob_bytes_def)
  have files: "files (wld st') = (files (wld st))(?lp \<mapsto> m1 @ m2 @ m3 @ data)"
    using st' o4 f2 o1 by (simp add: append_file_fresh)
  have tr: "trace (wld st') = trace (wld st) @ [(OpenFile ?lp, None)]
         @ map (\<lambda>b. (WriteFile ?lp b, None)) ?ws @ [(AddLayer ?lp, None), (CloseFile ?lp, None)]"
    using st' o4 t2 o1 by simp
  have lab: "assetLabel st' = AList.update (Sha256 a)
       (a\<lparr>LayerDiffID := ''sha256:'' @ hex (sha256 E (m1 @ m2 @ m3 @ data))\<rparr>) (assetLabel st)"
    using st' h by (simp add: hash_Sum_def)
  have dd: "dirs (wld st') = dirs (wld st)" "deferred st' = Some ?lp # deferred st"
    using st' o4 d2 o1 by simp_all
  show ?thesis using blob bb mm files dd tr lab by blast
qed

lemma Save_iteration_Return:
  assumes "Save_iteration E tmpDir M a st = (Return u, st')"
  shows "\<exists>blob data stream ws.
      M (Sha256 a) = Some blob \<and> blob_bytes blob = Some data
    \<and> packed_stream E (Sha256 a) data = Some stream
    \<and> files (wld st') = (files (wld st))(layerPath tmpDir a \<mapsto> stream)
    \<and> dirs (wld st') = dirs (wld st)
    \<and> trace (wld st') = trace (wld st) @ [(OpenFile (layerPath tmpDir a), None)]
         @ map (\<lambda>b. (WriteFile (layerPath tmpDir a) b, None)) ws
         @ [(AddLayer (layerPath tmpDir a), None), (CloseFile (layerPath tmpDir a), None)]
    \<and> concat ws = stream
    \<and> assetLabel st' = AList.update (Sha256 a) (a\<lparr>LayerDiffID := diff_id E stream\<rparr>) (assetLabel st)
    \<and> deferred st' = Some (layerPath tmpDir a) # deferred st"
proof -
  from Save_iteration_Return_explicit [OF assms] obtain blob data m1 m2 m3 where
    b: "M (Sha256 a) = Some blob" "blob_bytes blob = Some data"
    and mm: "marshal E \<lparr>hdr_Typeflag = TypeDir, hdr_Name = path_Join [''cnb''], hdr_Mode = mode_0755,
                  hdr_Size = 0, hdr_ModTime = NormalizedDateTime E\<rparr> = Inr m1"
      "marshal E \<lparr>hdr_Typeflag = TypeDir, hdr_Name = path_Join [''cnb'', ''assets''],
                  hdr_Mode = mode_0755, hdr_Size = 0, hdr_ModTime = NormalizedDateTime E\<rparr> = Inr m2"
      "marshal E \<lparr>hdr_Typeflag = TypeReg, hdr_Name = path_Join [''/cnb'', ''assets'', Sha256 a],
                  hdr_Mode = mode_0755, hdr_Size = length data,
                  hdr_ModTime = NormalizedDateTime E\<rparr> = Inr m3"
    and r: "files (wld st') = (files (wld st))(layerPath tmpDir a \<mapsto> m1 @ m2 @ m3 @ data)"
      "dirs (wld st') = dirs (wld st)"
      "trace (wld st') = trace (wld st) @ [(OpenFile (layerPath tmpDir a), None)]
         @ map (\<lambda>b. (WriteFile (layerPath tmpDir a) b, None))
             ([[], [], m1, [], [], m2, [], [], m3] @ (if data = [] then [] else [data]))
         @ [(AddLayer (layerPath tmpDir a), None), (CloseFile (layerPath tmpDir a), None)]"
      "assetLabel st' = AList.update (Sha256 a)
          (a\<lparr>LayerDiffID := ''sha256:'' @ hex (sha256 E (m1 @ m2 @ m3 @ data))\<rparr>) (assetLabel st)"
      "deferred st' = Some (layerPath tmpDir a) # deferred st"
    by blast
  have p: "packed_stream E (Sha256 a) data = Some (m1 @ m2 @ m3 @ data)"
    by (rule packed_stream_Some [OF mm])
  have c: "concat ([[], [], m1, [], [], m2, [], [], m3] @ (if data = [] then [] else [data])) = m1 @ m2 @ m3 @ data"
    by simp
  have l: "assetLabel st' = AList.update (Sha256 a)
          (a\<lparr>LayerDiffID := diff_id E (m1 @ m2 @ m3 @ data)\<rparr>) (assetLabel st)"
    using r(4) by (simp add: diff_id_def)
  show ?thesis using b p r(1,2,3,5) c l by blast
qed

lemma labelled_eq:
  "M (Sha256 a) = Some blob \<Longrightarrow> blob_bytes blob = Some data \<Longrightarrow>
   packed_stream E (Sha256 a) data = Some stream \<Longrightarrow>
   labelled E M a = a\<lparr>LayerDiffID := diff_id E stream\<rparr>"
  by (simp add: labelled_def)

lemma Save_loop_Return:
  "Save_loop E d M as st = (Return u, st') \<Longrightarrow>
     assetLabel st' = fold (\<lambda>a. AList.update (Sha256 a) (labelled E M a)) as (assetLabel st)
   \<and> dirs (wld st') = dirs (wld st)
   \<and> deferred st' = rev (map (\<lambda>a. Some (layerPath d a)) as) @ deferred st
   \<and> (\<forall>a\<in>set as. packable E M a)
   \<and> (\<exists>ts. trace (wld st') = trace (wld st) @ ts \<and> (\<forall>x\<in>set ts. snd x = None)
         \<and> fetches ts = [] \<and> packs ts = map (layerPath d) as
         \<and> layers_added ts = map (layerPath d) as \<and> labels_set ts = [] \<and> saves ts = [])"
proof (induction as arbitrary: st)
  case Nil
  then show ?case by simp
next
  case (Cons a as)
  from Cons.prems obtain u1 st1 where it: "Save_iteration E d M a st = (Return u1, st1)"
    and rest: "Save_loop E d M as st1 = (Return u, st')"
    by (auto split: prod.splits outcome.splits)
  from Save_iteration_Return [OF it] obtain blob data stream ws where
    b: "M (Sha256 a) = Some blob" "blob_bytes blob = Some data"
       "packed_stream E (Sha256 a) data = Some stream"
    and d1: "dirs (wld st1) = dirs (wld st)"
    and t1: "trace (wld st1) = trace (wld st) @ [(OpenFile (layerPath d a), None)]
         @ map (\<lambda>b. (WriteFile (layerPath d a) b, None)) ws
         @ [(AddLayer (layerPath d a), None), (CloseFile (layerPath d a), None)]"
    and l1: "assetLabel st1 = AList.update (Sha256 a) (a\<lparr>LayerDiffID := diff_id E stream\<rparr>) (assetLabel st)"
    and f1: "deferred st1 = Some (layerPath d a) # deferred st"
    by blast
  from Cons.IH [OF rest] obtain ts where
    ih: "assetLabel st' = fold (\<lambda>a. AList.update (Sha256 a) (labelled E M a)) as (assetLabel st1)"
        "dirs (wld st') = dirs (wld st1)"
        "deferred st' = rev (map (\<lambda>a. Some (layerPath d a)) as) @ deferred st1"
        "\<forall>a\<in>set as. packable E M a"
    and ts: "trace (wld st') = trace (wld st1) @ ts" "\<forall>x\<in>set ts. snd x = None"
        "fetches ts = []" "packs ts = map (layerPath d) as"
        "layers_added ts = map (layerPath d) as" "labels_set ts = []" "saves ts = []"
    by blast
  let ?ts1 = "[(OpenFile (layerPath d a), None)]
         @ map (\<lambda>b. (WriteFile (layerPath d a) b, None)) ws
         @ [(AddLayer (layerPath d a), None), (CloseFile (layerPath d a), None)]"
  have p: "packable E M a" using b unfolding packable_def by blast
  have lab: "assetLabel st' = fold (\<lambda>a. AList.update (Sha256 a) (labelled E M a)) (a # as) (assetLabel st)"
    using ih(1) l1 b by (simp add: labelled_eq)
  have tr: "trace (wld st') = trace (wld st) @ (?ts1 @ ts)" using ts(1) t1 by simp
  have none: "\<forall>x\<in>set (?ts1 @ ts). snd x = None" using ts(2) by auto
  have pr: "fetches (?ts1 @ ts) = []" "packs (?ts1 @ ts) = map (layerPath d) (a # as)"
    "layers_added (?ts1 @ ts) = map (layerPath d) (a # as)"
    "labels_set (?ts1 @ ts) = []" "saves (?ts1 @ ts) = []"
    using ts(3-7) by simp_all
  have "dirs (wld st') = dirs (wld st)" using ih(2) d1 by simp
  moreover have "deferred st' = rev (map (\<lambda>a. Some (layerPath d a)) (a # as)) @ deferred st"
    using ih(3) f1 by simp
  moreover have "\<forall>a\<in>set (a # as). packable E M a" using p ih(4) by simp
  ultimately show ?case using lab tr none pr by blast
qed

lemma run_deferred_frame:
  "\<exists>ts. trace (run_deferred E ds w) = trace w @ ts
       \<and> fetches ts = [] \<and> packs ts = [] \<and> layers_added ts = [] \<and> labels_set ts = []
       \<and> saves ts = [] \<and> (\<forall>x\<in>set ts. \<not> fatal (fst x))"
  and "dirs (run_deferred E ds w) = dirs w"
  and "files (run_deferred E ds w) = files w"
proof (induction E ds w rule: run_deferred.induct)
  case (1 E w)
  {
    case 1
    then show ?case by simp
  next
    case 2
    then show ?case by simp
  next
    case 3
    then show ?case by simp
  }
next
  case (2 E ds w)
  {
    case 1
    then show ?case using 2 by simp
  next
    case 2
    then show ?case using "2.IH" by simp
  next
    case 3
    then show ?case using "2.IH" by simp
  }
next
  case (3 E p ds w)
  let ?w1 = "snd (file_Close E p w)"
  have w1: "trace ?w1 = trace w @ [(CloseFile p, fails E (trace w) (CloseFile p))]"
    "dirs ?w1 = dirs w" "files ?w1 = files w"
    by (simp_all add: file_Close_def call_def Let_def)
  {
    case 1
    from "3.IH"(1) obtain ts where "trace (run_deferred E ds ?w1) = trace ?w1 @ ts"
       "fetches ts = []" "packs ts = []" "layers_added ts = []" "labels_set ts = []"
       "saves ts = []" "\<forall>x\<in>set ts. \<not> fatal (fst x)" by blast
    then show ?case using w1
      by (intro exI [of _ "(CloseFile p, fails E (trace w) (CloseFile p)) # ts"]) simp
  next
    case 2
    then show ?case using "3.IH"(2) w1 by simp
  next
    case 3
    then show ?case using "3.IH"(3) w1 by simp
  }
qed




lemma ioutil_TempDir_eq:
  "ioutil_TempDir E dir pat w = (r, w') \<Longrightarrow>
     trace w' = trace w @ [(TempDir dir pat, fails E (trace w) (TempDir dir pat))]
   \<and> files w' = files w
   \<and> (case fails E (trace w) (TempDir dir pat) of
         Some e \<Rightarrow> r = Inl e \<and> dirs w' = dirs w
       | None \<Rightarrow> r = Inr (tempdir E (trace w)) \<and> dirs w' = insert (tempdir E (trace w)) (dirs w))"
  by (auto simp: ioutil_TempDir_def call_eq Let_def split: option.splits prod.splits)

lemma Save_finish_eq:
  "Save_finish E label w = (res, w') \<Longrightarrow>
     dirs w' = dirs w \<and> files w' = files w
   \<and> (\<exists>ts. trace w' = trace w @ ts \<and> fetches ts = [] \<and> packs ts = [] \<and> layers_added ts = []
         \<and> labels_set ts = [(AssetLayersLabel, json_Encode E label)]
         \<and> (case res of
               Return r \<Rightarrow> saves ts = [r] \<and> (\<forall>x\<in>set ts. fatal (fst x) \<longrightarrow> snd x = None)
             | Panic p \<Rightarrow> saves ts = []
                 \<and> (\<exists>e. p = PErr e \<and> ts = [(SetLabel AssetLayersLabel (json_Encode E label), Some e)])))"
  by (auto simp: Save_finish_def call_eq split: option.splits prod.splits)

lemma under_self [simp]: "under d d"
  by (simp add: under_def)

lemma os_RemoveAll_simps [simp]:
  "trace (os_RemoveAll p w) = trace w @ [(RemoveAll p, None)]"
  "dirs (os_RemoveAll p w) = {d \<in> dirs w. \<not> under p d}"
  "files (os_RemoveAll p w) f = (if under p f then None else files w f)"
  by (simp_all add: os_RemoveAll_def)

lemma Save_cases:
  assumes "Save E a w = (res, w')"
  obtains (tempdir_failed) e w1 where
      "ioutil_TempDir E [] ''create-asset-scratch'' w = (Inl e, w1)" "res = Panic (PErr e)" "w' = w1"
  | (loop_panicked) w1 p st where
      "ioutil_TempDir E [] ''create-asset-scratch'' w = (Inr (tempdir E (trace w)), w1)"
      "Save_loop E (tempdir E (trace w)) (aci_AssetMap a) (aci_Assets a)
          \<lparr>wld = w1, assetLabel = [], deferred = []\<rparr> = (Panic p, st)"
      "res = Panic p"
      "w' = os_RemoveAll (tempdir E (trace w)) (run_deferred E (deferred st) (wld st))"
  | (finished) w1 u st w2 where
      "ioutil_TempDir E [] ''create-asset-scratch'' w = (Inr (tempdir E (trace w)), w1)"
      "Save_loop E (tempdir E (trace w)) (aci_AssetMap a) (aci_Assets a)
          \<lparr>wld = w1, assetLabel = [], deferred = []\<rparr> = (Return u, st)"
      "Save_finish E (assetLabel st) (wld st) = (res, w2)"
      "w' = os_RemoveAll (tempdir E (trace w)) (run_deferred E (deferred st) w2)"
proof (cases "ioutil_TempDir E [] ''create-asset-scratch'' w")
  case (Pair r w1)
  show ?thesis
  proof (cases r)
    case (Inl e)
    with assms Pair show ?thesis by (auto simp: Save_def intro: tempdir_failed)
  next
    case (Inr d)
    with Pair have d: "d = tempdir E (trace w)"
      by (auto dest!: ioutil_TempDir_eq split: option.splits)
    obtain r2 st where loop: "Save_loop E d (aci_AssetMap a) (aci_Assets a)
          \<lparr>wld = w1, assetLabel = [], deferred = []\<rparr> = (r2, st)"
      by (cases "Save_loop E d (aci_AssetMap a) (aci_Assets a)
          \<lparr>wld = w1, assetLabel = [], deferred = []\<rparr>")
    show ?thesis
    proof (cases r2)
      case (Return u)
      obtain res2 w2 where fin: "Save_finish E (assetLabel st) (wld st) = (res2, w2)"
        by (cases "Save_finish E (assetLabel st) (wld st)")
      with assms Pair Inr loop Return d show ?thesis
        by (auto simp: Save_def intro: finished)
    next
      case (Panic p)
      with assms Pair Inr loop d show ?thesis
        by (auto simp: Save_def intro: loop_panicked)
    qed
  qed
qed




lemma mw_Write_ok:
  "\<forall>t ev. fails E t ev = None \<Longrightarrow> \<exists>m' w'. mw_Write E b (m, w) = (None, m', w')"
  by (simp add: mw_Write_def file_Write_def call_def)

lemma tw_Flush_ok:
  "\<forall>t ev. fails E t ev = None \<Longrightarrow> tw_err tw = None \<Longrightarrow> tw_nb tw = 0 \<Longrightarrow>
     \<exists>tw' w'. tw_Flush E (tw, w) = (None, tw', w')"
  using mw_Write_ok [of E "zeroBlock (tw_pad tw)" "tw_w tw" w]
  by (auto simp: tw_Flush_def)

lemma tw_WriteHeader_ok:
  assumes "\<forall>t ev. fails E t ev = None" "tw_err tw = None" "tw_nb tw = 0" "marshal E h = Inr blk"
  shows "\<exists>tw' w'. tw_WriteHeader E h (tw, w) = (None, tw', w')"
proof -
  from tw_Flush_ok [OF assms(1-3)] obtain tw1 w1 where f: "tw_Flush E (tw, w) = (None, tw1, w1)"
    by blast
  from tw_Flush_None [OF f] have t1: "tw_err (tw1\<lparr>tw_hdr := h\<rparr>) = None" "tw_nb (tw1\<lparr>tw_hdr := h\<rparr>) = 0"
    by simp_all
  from tw_Flush_ok [OF assms(1) t1] obtain tw2 w2 where
    f2: "tw_Flush E (tw1\<lparr>tw_hdr := h\<rparr>, w1) = (None, tw2, w2)" by blast
  from mw_Write_ok [OF assms(1)] obtain m3 w3 where m: "mw_Write E blk (tw_w tw2, w2) = (None, m3, w3)"
    by blast
  show ?thesis using f f2 m assms(4)
    by (simp add: tw_WriteHeader_def tw_writeRawHeader_def Let_def)
qed

lemma tw_Write_ok:
  assumes "\<forall>t ev. fails E t ev = None" "tw_err tw = None" "length b \<le> tw_nb tw"
  shows "\<exists>tw' w'. tw_Write E b (tw, w) = (None, tw', w')"
proof -
  from mw_Write_ok [OF assms(1)] obtain m2 w2 where m: "mw_Write E b (tw_w tw, w) = (None, m2, w2)"
    by blast
  show ?thesis using m assms(2,3) by (auto simp: tw_Write_def Let_def)
qed

lemma packed_stream_SomeD:
  "packed_stream E sha data = Some stream \<Longrightarrow>
   \<exists>m1 m2 m3.
     marshal E \<lparr>hdr_Typeflag = TypeDir, hdr_Name = path_Join [''cnb''], hdr_Mode = mode_0755,
                  hdr_Size = 0, hdr_ModTime = NormalizedDateTime E\<rparr> = Inr m1
   \<and> marshal E \<lparr>hdr_Typeflag = TypeDir, hdr_Name = path_Join [''cnb'', ''assets''],
                  hdr_Mode = mode_0755, hdr_Size = 0, hdr_ModTime = NormalizedDateTime E\<rparr> = Inr m2
   \<and> marshal E \<lparr>hdr_Typeflag = TypeReg, hdr_Name = path_Join [''/cnb'', ''assets'', sha],
                  hdr_Mode = mode_0755, hdr_Size = length data,
                  hdr_ModTime = NormalizedDateTime E\<rparr> = Inr m3
   \<and> stream = m1 @ m2 @ m3 @ data"
  by (auto simp: packed_stream_def split: sum.splits)

lemma blob_bytes_SomeD:
  "blob_bytes blob = Some data \<Longrightarrow> \<exists>rc. Open blob = Inr rc \<and> io_Copy rc = Inr data"
  by (auto simp: blob_bytes_def split: sum.splits)

lemma toDistTar_ok:
  assumes ok: "\<forall>t ev. fails E t ev = None"
    and tw: "tw_err tw = None" "tw_nb tw = 0"
    and b: "blob_bytes blob = Some data"
    and p: "packed_stream E sha data = Some stream"
  shows "\<exists>tw' w'. toDistTar E sha blob (tw, w) = (Return None, tw', w')"
proof -
  from packed_stream_SomeD [OF p] obtain m1 m2 m3 where
    m1: "marshal E \<lparr>hdr_Typeflag = TypeDir, hdr_Name = path_Join [''cnb''], hdr_Mode = mode_0755,
                  hdr_Size = 0, hdr_ModTime = NormalizedDateTime E\<rparr> = Inr m1"
    and m2: "marshal E \<lparr>hdr_Typeflag = TypeDir, hdr_Name = path_Join [''cnb'', ''assets''],
                  hdr_Mode = mode_0755, hdr_Size = 0, hdr_ModTime = NormalizedDateTime E\<rparr> = Inr m2"
    and m3: "marshal E \<lparr>hdr_Typeflag = TypeReg, hdr_Name = path_Join [''/cnb'', ''assets'', sha],
                  hdr_Mode = mode_0755, hdr_Size = length data,
                  hdr_ModTime = NormalizedDateTime E\<rparr> = Inr m3"
    by blast
  from blob_bytes_SomeD [OF b] obtain rc where rc: "Open blob = Inr rc" "io_Copy rc = Inr data"
    by blast
  from tw_WriteHeader_ok [OF ok tw m1] obtain tw1 w1 where
    s1: "tw_WriteHeader E \<lparr>hdr_Typeflag = TypeDir, hdr_Name = path_Join [''cnb''], hdr_Mode = mode_0755,
                  hdr_Size = 0, hdr_ModTime = NormalizedDateTime E\<rparr> (tw, w) = (None, tw1, w1)"
    by blast
  from tw_WriteHeader_None [OF s1] have t1: "tw_err tw1 = None" "tw_nb tw1 = 0" by simp_all
  from tw_WriteHeader_ok [OF ok t1 m2] obtain tw2 w2 where
    s2: "tw_WriteHeader E \<lparr>hdr_Typeflag = TypeDir, hdr_Name = path_Join [''cnb'', ''assets''],
                  hdr_Mode = mode_0755, hdr_Size = 0, hdr_ModTime = NormalizedDateTime E\<rparr> (tw1, w1) = (None, tw2, w2)"
    by blast
  from tw_WriteHeader_None [OF s2] have t2: "tw_err tw2 = None" "tw_nb tw2 = 0" by simp_all
  from tw_WriteHeader_ok [OF ok t2 m3] obtain tw3 w3 where
    s3: "tw_WriteHeader E \<lparr>hdr_Typeflag = TypeReg, hdr_Name = path_Join [''/cnb'', ''assets'', sha],
                  hdr_Mode = mode_0755, hdr_Size = length data,
                  hdr_ModTime = NormalizedDateTime E\<rparr> (tw2, w2) = (None, tw3, w3)"
    by blast
  from tw_WriteHeader_None [OF s3] have t3: "tw_err tw3 = None" "length data \<le> tw_nb tw3" by simp_all
  from tw_Write_ok [OF ok t3] obtain tw4 w4 where s4: "tw_Write E data (tw3, w3) = (None, tw4, w4)"
    by blast
  show ?thesis using s1 s2 rc s3 s4 by (simp add: toDistTar_def)
qed

lemma Save_iteration_ok:
  assumes ok: "\<forall>t ev. fails E t ev = None" and p: "packable E M a"
  shows "\<exists>st'. Save_iteration E d M a st = (Return (), st')"
proof -
  from p obtain blob data stream where b: "M (Sha256 a) = Some blob" "blob_bytes blob = Some data"
    "packed_stream E (Sha256 a) data = Some stream"
    unfolding packable_def by blast
  let ?lp = "filepath_Join [d, Sha256 a]"
  obtain w1 where w1: "os_OpenFile E ?lp (wld st) = (None, w1)"
    using ok by (simp add: os_OpenFile_def call_def)
  have "tw_err (tar_NewWriter (io_MultiWriter ?lp [])) = None"
       "tw_nb (tar_NewWriter (io_MultiWriter ?lp [])) = 0"
    by (simp_all add: tar_NewWriter_def)
  from toDistTar_ok [OF ok this b(2,3)] obtain tw w2 where
    td: "toDistTar E (Sha256 a) blob (tar_NewWriter (io_MultiWriter ?lp []), w1) = (Return None, tw, w2)"
    by blast
  obtain w3 where w3: "call E (AddLayer ?lp) w2 = (None, w3)" using ok by (simp add: call_def)
  obtain w4 where w4: "file_Close E ?lp w3 = (None, w4)" using ok by (simp add: file_Close_def call_def)
  show ?thesis using b(1) w1 td w3 w4 by (simp add: Save_iteration_def v1_Hasher_def Let_def)
qed

lemma Save_loop_ok:
  assumes ok: "\<forall>t ev. fails E t ev = None"
  shows "\<forall>a\<in>set as. packable E M a \<Longrightarrow> \<exists>st'. Save_loop E d M as st = (Return (), st')"
proof (induction as arbitrary: st)
  case Nil
  then show ?case by simp
next
  case (Cons a as)
  from Cons.prems have "packable E M a" by simp
  from Save_iteration_ok [OF ok this] obtain st1 where
    it: "Save_iteration E d M a st = (Return (), st1)" by blast
  from Cons.IH [of st1] Cons.prems obtain st' where "Save_loop E d M as st1 = (Return (), st')"
    by auto
  with it show ?case by simp
qed

lemma Save_ok:
  assumes ok: "\<forall>t ev. fails E t ev = None" and p: "\<forall>x\<in>set (aci_Assets a). packable E (aci_AssetMap a) x"
  shows "\<exists>w'. Save E a w = (Return None, w')"
proof -
  obtain w1 where td: "ioutil_TempDir E [] ''create-asset-scratch'' w = (Inr (tempdir E (trace w)), w1)"
    using ok by (simp add: ioutil_TempDir_def call_def Let_def)
  from Save_loop_ok [OF ok p] obtain st where
    loop: "Save_loop E (tempdir E (trace w)) (aci_AssetMap a) (aci_Assets a)
             \<lparr>wld = w1, assetLabel = [], deferred = []\<rparr> = (Return (), st)"
    by blast
  obtain w2 where fin: "Save_finish E (assetLabel st) (wld st) = (Return None, w2)"
    using ok by (simp add: Save_finish_def call_def)
  show ?thesis using td loop fin by (simp add: Save_def)
qed

lemma downloader_Download_eq:
  "downloader_Download E u w = (r, w') \<Longrightarrow>
     trace w' = trace w @ [(Download u, fails E (trace w) (Download u))]
   \<and> dirs w' = dirs w \<and> files w' = files w
   \<and> (case fails E (trace w) (Download u) of
         Some e \<Rightarrow> r = Inl e
       | None \<Rightarrow> r = Inr (downloaded E (trace w) u))"
  by (auto simp: downloader_Download_def call_eq split: option.splits prod.splits)

lemma downloadAssets_loop_frame:
  "downloadAssets_loop E as M w = (r, w') \<Longrightarrow> dirs w' = dirs w \<and> files w' = files w"
proof (induction as arbitrary: M w)
  case Nil
  then show ?case by simp
next
  case (Cons a as)
  then show ?case
    by (auto split: prod.splits sum.splits dest!: downloader_Download_eq)
qed

lemma downloadAssets_loop_None:
  "downloadAssets_loop E as M w = ((M', None), w') \<Longrightarrow>
     trace w' = trace w @ map (\<lambda>a. (Download (URI a), None)) as
   \<and> dom M' = dom M \<union> Sha256 ` set as
   \<and> (\<forall>D. (\<forall>t u. downloaded E t u = D u) \<longrightarrow>
          M' = fold (\<lambda>a m. m(Sha256 a \<mapsto> D (URI a))) as M)
   \<and> (\<forall>k b. M' k = Some b \<longrightarrow> M k = Some b \<or> (\<exists>t u. b = downloaded E t u))"
proof (induction as arbitrary: M w)
  case Nil
  then show ?case by simp
next
  case (Cons a as)
  from Cons.prems obtain b w1 where
    d: "downloader_Download E (URI a) w = (Inr b, w1)"
    and rest: "downloadAssets_loop E as (M(Sha256 a \<mapsto> b)) w1 = ((M', None), w')"
    by (auto split: prod.splits sum.splits)
  from downloader_Download_eq [OF d] have
    t1: "trace w1 = trace w @ [(Download (URI a), None)]" and b: "b = downloaded E (trace w) (URI a)"
    by (auto split: option.splits)
  note ih = Cons.IH [OF rest]
  have "trace w' = trace w @ map (\<lambda>a. (Download (URI a), None)) (a # as)"
    using ih t1 by simp
  moreover have "dom M' = dom M \<union> Sha256 ` set (a # as)"
    using ih by auto
  moreover have "\<forall>D. (\<forall>t u. downloaded E t u = D u) \<longrightarrow>
          M' = fold (\<lambda>a m. m(Sha256 a \<mapsto> D (URI a))) (a # as) M"
  proof (intro allI impI)
    fix D assume D: "\<forall>t u. downloaded E t u = D u"
    with ih have "M' = fold (\<lambda>a m. m(Sha256 a \<mapsto> D (URI a))) as (M(Sha256 a \<mapsto> b))"
      by blast
    moreover have "b = D (URI a)" using b D by simp
    ultimately show "M' = fold (\<lambda>a m. m(Sha256 a \<mapsto> D (URI a))) (a # as) M"
      by simp
  qed
  moreover have "\<forall>k c. M' k = Some c \<longrightarrow> M k = Some c \<or> (\<exists>t u. c = downloaded E t u)"
  proof (intro allI impI)
    fix k c assume "M' k = Some c"
    with ih have "(M(Sha256 a \<mapsto> b)) k = Some c \<or> (\<exists>t u. c = downloaded E t u)" by blast
    then show "M k = Some c \<or> (\<exists>t u. c = downloaded E t u)"
      using b by (auto split: if_splits)
  qed
  ultimately show ?case by blast
qed


lemma downloadAssets_loop_ok:
  "\<forall>t ev. fails E t ev = None \<Longrightarrow> \<exists>M' w'. downloadAssets_loop E as M w = ((M', None), w')"
proof (induction as arbitrary: M w)
  case Nil
  then show ?case by simp
next
  case (Cons a as)
  then show ?case by (simp add: downloader_Download_def call_def)
qed

lemma proj_downloads [simp]:
  "fetches (map (\<lambda>a. (Download (URI a), r)) as) = map URI as"
  "packs (map (\<lambda>a. (Download (URI a), r)) as) = []"
  "layers_added (map (\<lambda>a. (Download (URI a), r)) as) = []"
  "labels_set (map (\<lambda>a. (Download (URI a), r)) as) = []"
  "saves (map (\<lambda>a. (Download (URI a), r)) as) = []"
  by (induction as) simp_all

lemma CreateAssetCache_cases:
  assumes "CreateAssetCache E opts w = (res, w')"
  obtains (invalid_name) e where
      "NewTag E (ImageName opts) = Inl e"
      "res = Return (Some (Errorf ''invalid asset cache image name: %q'' e))" "w' = w"
  | (no_image) tag e where
      "NewTag E (ImageName opts) = Inr tag"
      "fails E (trace w) (NewImage tag True) = Some e"
      "res = Return (Some (Errorf ''unable to create asset cache image: %q'' e))"
      "w' = w\<lparr>trace := trace w @ [(NewImage tag True, Some e)]\<rparr>"
  | (fetch_failed) tag M e where
      "NewTag E (ImageName opts) = Inr tag"
      "fails E (trace w) (NewImage tag True) = None"
      "downloadAssets_loop E (Assets opts) Map.empty
         (w\<lparr>trace := trace w @ [(NewImage tag True, None)]\<rparr>) = ((M, Some e), w')"
      "res = Panic (PErr e)"
  | (saving) tag M w2 where
      "NewTag E (ImageName opts) = Inr tag"
      "fails E (trace w) (NewImage tag True) = None"
      "downloadAssets_loop E (Assets opts) Map.empty
         (w\<lparr>trace := trace w @ [(NewImage tag True, None)]\<rparr>) = ((M, None), w2)"
      "Save E \<lparr>aci_Assets = Assets opts, aci_AssetMap = M\<rparr> w2 = (res, w')"
proof (cases "NewTag E (ImageName opts)")
  case (Inl e)
  with assms show ?thesis
    by (auto simp: CreateAssetCache_def validateConfig_def intro: invalid_name)
next
  case (Inr tag)
  show ?thesis
  proof (cases "fails E (trace w) (NewImage tag True)")
    case (Some e)
    with assms Inr show ?thesis
      by (auto simp: CreateAssetCache_def validateConfig_def imageFactory_NewImage_def call_def
          Let_def intro: no_image)
  next
    case None
    let ?w1 = "w\<lparr>trace := trace w @ [(NewImage tag True, None)]\<rparr>"
    obtain M r w2 where dl: "downloadAssets_loop E (Assets opts) Map.empty ?w1 = ((M, r), w2)"
      by (cases "downloadAssets_loop E (Assets opts) Map.empty ?w1") auto
    show ?thesis
    proof (cases r)
      case None2: None
      with assms Inr None dl show ?thesis
        by (auto simp: CreateAssetCache_def validateConfig_def imageFactory_NewImage_def call_def
            Let_def downloadAssets_def NewAssetCacheImage_def intro: saving)
    next
      case (Some e)
      with assms Inr None dl show ?thesis
        by (auto simp: CreateAssetCache_def validateConfig_def imageFactory_NewImage_def call_def
            Let_def downloadAssets_def intro: fetch_failed)
    qed
  qed
qed

lemma Save_Return:
  assumes "Save E a w = (Return r, w')"
  shows "(\<exists>ts. trace w' = trace w @ ts
     \<and> fetches ts = []
     \<and> packs ts = map (layerPath (tempdir E (trace w))) (aci_Assets a)
     \<and> layers_added ts = map (layerPath (tempdir E (trace w))) (aci_Assets a)
     \<and> labels_set ts = [(AssetLayersLabel, json_Encode E (final_label E (aci_AssetMap a) (aci_Assets a)))]
     \<and> saves ts = [r]
     \<and> (\<forall>x\<in>set ts. fatal (fst x) \<longrightarrow> snd x = None))
   \<and> (\<forall>x\<in>set (aci_Assets a). packable E (aci_AssetMap a) x)"
  using assms
proof (cases rule: Save_cases)
  case (tempdir_failed e w1)
  then show ?thesis by simp
next
  case (loop_panicked w1 p st)
  then show ?thesis by simp
next
  case (finished w1 u st w2)
  let ?d = "tempdir E (trace w)"
  from ioutil_TempDir_eq [OF finished(1)] have
    t1: "trace w1 = trace w @ [(TempDir [] ''create-asset-scratch'', None)]"
    by (auto split: option.splits)
  from Save_loop_Return [OF finished(2)] obtain ts1 where
    lab: "assetLabel st = final_label E (aci_AssetMap a) (aci_Assets a)"
    and pk: "\<forall>x\<in>set (aci_Assets a). packable E (aci_AssetMap a) x"
    and l1: "trace (wld st) = trace w1 @ ts1" "\<forall>x\<in>set ts1. snd x = None"
      "fetches ts1 = []" "packs ts1 = map (layerPath ?d) (aci_Assets a)"
      "layers_added ts1 = map (layerPath ?d) (aci_Assets a)" "labels_set ts1 = []" "saves ts1 = []"
    by (auto simp: final_label_def)
  from Save_finish_eq [OF finished(3)] obtain ts2 where
    l2: "trace w2 = trace (wld st) @ ts2" "fetches ts2 = []" "packs ts2 = []" "layers_added ts2 = []"
      "labels_set ts2 = [(AssetLayersLabel, json_Encode E (assetLabel st))]"
      "saves ts2 = [r]" "\<forall>x\<in>set ts2. fatal (fst x) \<longrightarrow> snd x = None"
    using assms finished by auto
  from run_deferred_frame(1) [of E "deferred st" w2] obtain ts3 where
    l3: "trace (run_deferred E (deferred st) w2) = trace w2 @ ts3"
      "fetches ts3 = []" "packs ts3 = []" "layers_added ts3 = []" "labels_set ts3 = []"
      "saves ts3 = []" "\<forall>x\<in>set ts3. \<not> fatal (fst x)"
    by blast
  let ?ts = "[(TempDir [] ''create-asset-scratch'', None)] @ ts1 @ ts2 @ ts3 @ [(RemoveAll ?d, None)]"
  have tr: "trace w' = trace w @ ?ts"
    using finished(4) t1 l1(1) l2(1) l3(1) by simp
  have pr: "fetches ?ts = []" "packs ?ts = map (layerPath ?d) (aci_Assets a)"
    "layers_added ?ts = map (layerPath ?d) (aci_Assets a)"
    "labels_set ?ts = [(AssetLayersLabel, json_Encode E (final_label E (aci_AssetMap a) (aci_Assets a)))]"
    "saves ?ts = [r]"
    using l1(3-7) l2(2-6) l3(2-6) lab by simp_all
  have ft: "\<forall>x\<in>set ?ts. fatal (fst x) \<longrightarrow> snd x = None"
    using l1(2) l2(7) l3(7) by auto
  show ?thesis using tr pr ft pk by blast
qed

lemma CreateAssetCache_Return_None:
  assumes "CreateAssetCache E opts w = (Return None, w')"
  shows "\<exists>tag M d ts. NewTag E (ImageName opts) = Inr tag
     \<and> trace w' = trace w @ ts
     \<and> fetches ts = map URI (Assets opts)
     \<and> packs ts = map (layerPath d) (Assets opts)
     \<and> layers_added ts = map (layerPath d) (Assets opts)
     \<and> labels_set ts = [(AssetLayersLabel, json_Encode E (final_label E M (Assets opts)))]
     \<and> saves ts = [None]
     \<and> (\<forall>x\<in>set ts. fatal (fst x) \<longrightarrow> snd x = None)
     \<and> (\<forall>x\<in>set (Assets opts). packable E M x)
     \<and> (\<forall>D. (\<forall>t u. downloaded E t u = D u) \<longrightarrow> M = fetched D (Assets opts))"
  using assms
proof (cases rule: CreateAssetCache_cases)
  case (invalid_name e)
  then show ?thesis by simp
next
  case (no_image tag e)
  then show ?thesis by simp
next
  case (fetch_failed tag M e)
  then show ?thesis by simp
next
  case (saving tag M w2)
  let ?w1 = "w\<lparr>trace := trace w @ [(NewImage tag True, None)]\<rparr>"
  from downloadAssets_loop_None [OF saving(3)] have
    t2: "trace w2 = trace w @ [(NewImage tag True, None)] @ map (\<lambda>a. (Download (URI a), None)) (Assets opts)"
    and M: "\<forall>D. (\<forall>t u. downloaded E t u = D u) \<longrightarrow> M = fetched D (Assets opts)"
    by (simp_all add: fetched_def)
  from Save_Return [OF saving(4)] obtain ts3 where
    s: "trace w' = trace w2 @ ts3" "fetches ts3 = []"
       "packs ts3 = map (layerPath (tempdir E (trace w2))) (Assets opts)"
       "layers_added ts3 = map (layerPath (tempdir E (trace w2))) (Assets opts)"
       "labels_set ts3 = [(AssetLayersLabel, json_Encode E (final_label E M (Assets opts)))]"
       "saves ts3 = [None]" "\<forall>x\<in>set ts3. fatal (fst x) \<longrightarrow> snd x = None"
    and pk: "\<forall>x\<in>set (Assets opts). packable E M x"
    by auto
  let ?ts = "[(NewImage tag True, None)] @ map (\<lambda>a. (Download (URI a), None)) (Assets opts) @ ts3"
  have tr: "trace w' = trace w @ ?ts" using s(1) t2 by simp
  have pr: "fetches ?ts = map URI (Assets opts)"
    "packs ?ts = map (layerPath (tempdir E (trace w2))) (Assets opts)"
    "layers_added ?ts = map (layerPath (tempdir E (trace w2))) (Assets opts)"
    "labels_set ?ts = [(AssetLayersLabel, json_Encode E (final_label E M (Assets opts)))]"
    "saves ?ts = [None]"
    using s(2-6) by simp_all
  have ft: "\<forall>x\<in>set ?ts. fatal (fst x) \<longrightarrow> snd x = None" using s(7) by auto
  show ?thesis using saving(1) tr pr ft pk M by blast
qed

lemma CreateAssetCache_ok:
  assumes ok: "\<forall>t ev. fails E t ev = None"
    and tag: "NewTag E (ImageName opts) = Inr tag"
    and rd: "\<forall>t u. \<exists>data. blob_bytes (downloaded E t u) = Some data"
    and ms: "\<forall>h. \<exists>blk. marshal E h = Inr blk"
  shows "\<exists>w'. CreateAssetCache E opts w = (Return None, w')"
proof -
  let ?w1 = "w\<lparr>trace := trace w @ [(NewImage tag True, None)]\<rparr>"
  from downloadAssets_loop_ok [OF ok] obtain M w2 where
    dl: "downloadAssets_loop E (Assets opts) Map.empty ?w1 = ((M, None), w2)" by blast
  have "\<forall>x\<in>set (Assets opts). packable E M x"
  proof
    fix x assume "x \<in> set (Assets opts)"
    with downloadAssets_loop_None [OF dl] have "Sha256 x \<in> dom M" by auto
    then obtain b where b: "M (Sha256 x) = Some b" by auto
    from downloadAssets_loop_None [OF dl] have
      "\<forall>k c. M k = Some c \<longrightarrow> Map.empty k = Some c \<or> (\<exists>t u. c = downloaded E t u)" by blast
    with b obtain t u where "b = downloaded E t u" by fastforce
    with rd obtain data where d: "blob_bytes b = Some data" by metis
    from ms have "\<exists>s. packed_stream E (Sha256 x) data = Some s"
      unfolding packed_stream_def by (metis (no_types, lifting) sum.simps(6))
    with b d show "packable E M x" unfolding packable_def by blast
  qed
  then have "\<forall>x\<in>set (aci_Assets \<lparr>aci_Assets = Assets opts, aci_AssetMap = M\<rparr>).
      packable E (aci_AssetMap \<lparr>aci_Assets = Assets opts, aci_AssetMap = M\<rparr>) x" by simp
  from Save_ok [OF ok this] obtain w' where
    "Save E \<lparr>aci_Assets = Assets opts, aci_AssetMap = M\<rparr> w2 = (Return None, w')" by blast
  with dl tag ok show ?thesis
    by (simp add: CreateAssetCache_def validateConfig_def imageFactory_NewImage_def call_def Let_def
        downloadAssets_def NewAssetCacheImage_def)
qed

lemma fold_update_keys:
  "fst ` set (fold (\<lambda>x. AList.update (k x) (v x)) xs acc) = fst ` set acc \<union> k ` set xs"
  by (induction xs arbitrary: acc) (auto simp: dom_update)

lemma fold_update_distinct:
  "distinct (map fst acc) \<Longrightarrow> distinct (map fst (fold (\<lambda>x. AList.update (k x) (v x)) xs acc))"
  by (induction xs arbitrary: acc) (auto simp: distinct_update)

lemma set_update_subset: "set (AList.update k v al) \<subseteq> insert (k, v) (set al)"
  by (induction al) auto

lemma fold_update_mem:
  "(key, val) \<in> set (fold (\<lambda>x. AList.update (k x) (v x)) xs acc) \<Longrightarrow>
     (key, val) \<in> set acc \<or> (\<exists>x\<in>set xs. key = k x \<and> val = v x)"
proof (induction xs arbitrary: acc)
  case Nil
  then show ?case by simp
next
  case (Cons x xs)
  from Cons.IH [of "AList.update (k x) (v x) acc"] Cons.prems
  have "(key, val) \<in> set (AList.update (k x) (v x) acc) \<or> (\<exists>y\<in>set xs. key = k y \<and> val = v y)"
    by simp
  then show ?case using set_update_subset [of "k x" "v x" acc] by auto
qed















lemma tw_Close_None:
  assumes "tw_Close E (tw, w) = (None, tw', w')" "tw_err tw = None"
  shows "files w' = append_file (mw_file (tw_w tw))
                      (zeroBlock (tw_pad tw) @ zeroBlock blockSize @ zeroBlock blockSize) (files w)
       \<and> mw_hash (tw_w tw') = mw_hash (tw_w tw) @ zeroBlock (tw_pad tw) @ zeroBlock blockSize
                                 @ zeroBlock blockSize"
proof -
  from assms obtain tw1 w1 where f: "tw_Flush E (tw, w) = (None, tw1, w1)"
    by (auto simp: tw_Close_def split: prod.splits option.splits if_splits)
  from assms f obtain m2 w2 where a: "mw_Write E (zeroBlock blockSize) (tw_w tw1, w1) = (None, m2, w2)"
    by (auto simp: tw_Close_def split: prod.splits option.splits if_splits)
  from assms f a obtain m3 where b: "mw_Write E (zeroBlock blockSize) (m2, w2) = (None, m3, w')"
    and t: "tw_w tw' = m3"
    by (auto simp: tw_Close_def split: prod.splits option.splits if_splits)
  from tw_Flush_None [OF f] mw_Write_None [OF a] mw_Write_None [OF b] t show ?thesis
    by (simp add: append_file_append)
qed

lemma toDistTar_Close:
  assumes "toDistTar E sha blob (tw, w) = (Return None, tw1, w1)" "tw_pad tw = 0"
    and "tw_Close E (tw1, w1) = (None, tw2, w2)"
  shows "\<exists>data stream. blob_bytes blob = Some data \<and> packed_stream E sha data = Some stream
     \<and> files w1 = append_file (mw_file (tw_w tw)) stream (files w)
     \<and> files w2 = append_file (mw_file (tw_w tw))
          (stream @ zeroBlock (blockPadding (length data)) @ zeroBlock blockSize @ zeroBlock blockSize)
          (files w)"
proof -
  from toDistTar_None [OF assms(1,2)] obtain rc data m1 m2 m3 where
    d: "Open blob = Inr rc" "io_Copy rc = Inr data"
    and p: "packed_stream E sha data = Some (m1 @ m2 @ m3 @ data)"
    and f: "files w1 = append_file (mw_file (tw_w tw)) (m1 @ m2 @ m3 @ data) (files w)"
    and t: "tw_pad tw1 = blockPadding (length data)" "tw_err tw1 = None"
      "mw_file (tw_w tw1) = mw_file (tw_w tw)"
    by (auto dest: packed_stream_Some)
  have bb: "blob_bytes blob = Some data" using d by (simp add: blob_bytes_def)
  from tw_Close_None [OF assms(3) t(2)] f t(1,3)
  have "files w2 = append_file (mw_file (tw_w tw))
          ((m1 @ m2 @ m3 @ data) @ zeroBlock (blockPadding (length data)) @ zeroBlock blockSize
            @ zeroBlock blockSize) (files w)"
    by (simp add: append_file_append)
  with bb p f show ?thesis by blast
qed

lemma fold_fold_concat: "fold (\<lambda>bp m. fold f bp m) bps m0 = fold f (concat bps) m0"
  by (induction bps arbitrary: m0) simp_all

lemma getAssets_assetMap_concat:
  "getAssets_assetMap bps = fold (\<lambda>a. AList.update (Sha256 a) a) (concat bps) []"
  unfolding getAssets_assetMap_def by (rule fold_fold_concat)

lemma getAssets_assetMap_keys:
  "map fst (getAssets_assetMap bps) = map Sha256 (map snd (getAssets_assetMap bps))"
proof -
  have "\<forall>p\<in>set (getAssets_assetMap bps). fst p = Sha256 (snd p)"
  proof
    fix p assume "p \<in> set (getAssets_assetMap bps)"
    then have "(fst p, snd p) \<in> set (fold (\<lambda>a. AList.update (Sha256 a) a) (concat bps) [])"
      by (simp add: getAssets_assetMap_concat)
    from fold_update_mem [OF this] show "fst p = Sha256 (snd p)" by auto
  qed
  then show ?thesis by simp
qed

lemma getAssets_returns_sound:
  assumes "getAssets_returns bps r"
  shows "distinct (map Sha256 r) \<and> sorted (map ID r)
       \<and> Sha256 ` set r = Sha256 ` set (concat bps)"
proof -
  let ?m = "getAssets_assetMap bps"
  from assms have ms: "mset r = mset (map snd ?m)" and so: "sorted (map ID r)"
    by (simp_all add: getAssets_returns_def)
  have dm: "distinct (map fst ?m)"
    by (simp add: getAssets_assetMap_concat fold_update_distinct)
  have "mset (map Sha256 r) = image_mset Sha256 (mset r)" by simp
  also have "\<dots> = image_mset Sha256 (mset (map snd ?m))" by (simp only: ms)
  also have "\<dots> = mset (map Sha256 (map snd ?m))" by (simp only: mset_map)
  also have "\<dots> = mset (map fst ?m)" by (simp only: getAssets_assetMap_keys)
  finally have "mset (map Sha256 r) = mset (map fst ?m)" .
  with dm have d: "distinct (map Sha256 r)" using mset_eq_imp_distinct_iff by blast
  from ms have "set r = set (map snd ?m)" by (rule mset_eq_setD)
  then have "Sha256 ` set r = set (map Sha256 (map snd ?m))" by (simp only: set_map)
  also have "\<dots> = fst ` set ?m" using getAssets_assetMap_keys [of bps] by (metis set_map)
  also have "\<dots> = Sha256 ` set (concat bps)"
    by (simp add: getAssets_assetMap_concat fold_update_keys)
  finally show ?thesis using d so by blast
qed

lemma getAssets_example:
  "getAssets_returns [[second_asset, first_asset], [first_asset]] [first_asset, second_asset]"
  by (simp add: getAssets_returns_def getAssets_assetMap_def first_asset_def second_asset_def)

lemma labelled_fields [simp]:
  "ID (labelled E M a) = ID a" "Sha256 (labelled E M a) = Sha256 a"
  by (simp_all add: labelled_def split: option.splits)


lemma packing_refl [simp]: "packing ok w w"
  by (simp add: packing_def)




lemma packing_upd [simp]:
  "packing ok w (w'\<lparr>files := f\<rparr>) = packing ok w w'"
  "packing ok w (w'\<lparr>dirs := d\<rparr>) = packing ok w w'"
  "packing ok (w\<lparr>files := f\<rparr>) w' = packing ok w w'"
  "packing ok (w\<lparr>dirs := d\<rparr>) w' = packing ok w w'"
  by (simp_all add: packing_def)












lemma saves_cleanup: "\<forall>x\<in>set ts. \<exists>p. fst x = CloseFile p \<or> fst x = RemoveAll p \<Longrightarrow> saves ts = []"
  by (induction ts) auto

lemma fetches_cleanup: "\<forall>x\<in>set ts. \<exists>p. fst x = CloseFile p \<or> fst x = RemoveAll p \<Longrightarrow> fetches ts = []"
  by (induction ts) auto




section \<open>The concrete environment\<close>

lemma E0_never_fails: "\<forall>t ev. fails E0 t ev = None"
  by (simp add: E0_def)

lemma E0_reads: "\<forall>t u. \<exists>data. blob_bytes (downloaded E0 t u) = Some data"
  by (simp add: E0_def blob_bytes_def)

lemma E0_marshals: "\<forall>h. \<exists>blk. marshal E0 h = Inr blk"
  by (simp add: E0_def)

lemma packable_first:
  "packable E0 [''first-sha256'' \<mapsto> first_blob] first_asset"
  by (simp add: packable_def first_asset_def first_blob_def blob_bytes_def packed_stream_def E0_def)



lemma packable_other:
  "packable E0 [''first-sha256'' \<mapsto> first_blob] other_asset"
  by (simp add: packable_def other_asset_def first_blob_def blob_bytes_def packed_stream_def E0_def)

lemma E0_builds:
  "n \<noteq> ''::::'' \<Longrightarrow>
   CreateAssetCache E0 \<lparr>ImageName = n, Assets = as\<rparr> w
     = (Return None, snd (CreateAssetCache E0 \<lparr>ImageName = n, Assets = as\<rparr> w))"
proof -
  assume "n \<noteq> ''::::''"
  then have "NewTag E0 (ImageName \<lparr>ImageName = n, Assets = as\<rparr>) = Inr n" by (simp add: E0_def)
  from CreateAssetCache_ok [OF E0_never_fails this E0_reads E0_marshals]
  obtain w' where "CreateAssetCache E0 \<lparr>ImageName = n, Assets = as\<rparr> w = (Return None, w')"
    by blast
  then show ?thesis by simp
qed



section \<open>The claims\<close>

text \<open>
  C5. When the image name does not parse, \<open>CreateAssetCache\<close> returns the error
  \<^verbatim>\<open>invalid asset cache image name: ...\<close> built from the parser's error, and the world it
  returns is the world it was given: no event has been added to the trace (no image
  creation, no fetch, no file or image operation) and no file or directory has changed.
\<close>

theorem CreateAssetCache_invalid_name:
  assumes "NewTag E (ImageName opts) = Inl e"
  shows "CreateAssetCache E opts w =
           (Return (Some (Errorf ''invalid asset cache image name: %q'' e)), w)"
  using assms by (simp add: CreateAssetCache_def validateConfig_def)

theorem CreateAssetCache_invalid_name_witness:
  "NewTag E0 (ImageName \<lparr>ImageName = ''::::'', Assets = [first_asset, second_asset]\<rparr>)
     = Inl (Err ''could not parse reference'')
   \<and> CreateAssetCache E0 \<lparr>ImageName = ''::::'', Assets = [first_asset, second_asset]\<rparr> w0 =
       (Return (Some (Errorf ''invalid asset cache image name: %q''
                        (Err ''could not parse reference''))), w0)"
proof -
  have h: "NewTag E0 (ImageName \<lparr>ImageName = ''::::'', Assets = [first_asset, second_asset]\<rparr>)
     = Inl (Err ''could not parse reference'')"
    by (simp add: E0_def)
  from h CreateAssetCache_invalid_name [OF h, of w0] show ?thesis by simp
qed

text \<open>
  C9. However \<open>Save\<close> is left (by returning, with or without an error, or by a panic at
  any point of the loop or after it), the temporary directory it created is gone when
  it is left: the directory is not among the directories of the final world, no file
  under it remains, and its removal is the last event of the trace. When the
  directory could not be created, \<open>Save\<close> panics with that error and no directory or
  file has changed.
\<close>

theorem Save_removes_working_directory:
  assumes "Save E a w = (res, w')"
  shows "(case fails E (trace w) (TempDir [] ''create-asset-scratch'') of
            Some e \<Rightarrow> res = Panic (PErr e) \<and> dirs w' = dirs w \<and> files w' = files w
          | None \<Rightarrow>
              tempdir E (trace w) \<notin> dirs w'
            \<and> (\<forall>f. under (tempdir E (trace w)) f \<longrightarrow> files w' f = None)
            \<and> last (trace w') = (RemoveAll (tempdir E (trace w)), None))"
  using assms
proof (cases rule: Save_cases)
  case (tempdir_failed e w1)
  from ioutil_TempDir_eq [OF tempdir_failed(1)] tempdir_failed(2,3) show ?thesis
    by (auto split: option.splits)
next
  case (loop_panicked w1 p st)
  from ioutil_TempDir_eq [OF loop_panicked(1)] loop_panicked(4) show ?thesis
    by (auto split: option.splits)
next
  case (finished w1 u st w2)
  from ioutil_TempDir_eq [OF finished(1)] finished(4) show ?thesis
    by (auto split: option.splits)
qed

theorem Save_removes_working_directory_witness:
  "Save E_layer_fails \<lparr>aci_Assets = [first_asset], aci_AssetMap = Map.empty\<rparr> w0 =
     (fst (Save E_layer_fails \<lparr>aci_Assets = [first_asset], aci_AssetMap = Map.empty\<rparr> w0),
      snd (Save E_layer_fails \<lparr>aci_Assets = [first_asset], aci_AssetMap = Map.empty\<rparr> w0))
   \<and> ''/tmp/create-asset-scratch1'' \<notin>
       dirs (snd (Save E_layer_fails \<lparr>aci_Assets = [first_asset], aci_AssetMap = Map.empty\<rparr> w0))"
proof -
  let ?a = "\<lparr>aci_Assets = [first_asset], aci_AssetMap = Map.empty\<rparr>"
  have h: "Save E_layer_fails ?a w0 = (fst (Save E_layer_fails ?a w0), snd (Save E_layer_fails ?a w0))"
    by simp
  from Save_removes_working_directory [OF h] show ?thesis
    by (simp add: E_layer_fails_def E0_def)
qed

text \<open>
  C1. When the body of the loop of \<open>Save\<close> finishes for an asset, the asset entered
  in the label under its hash carries the \<open>LayerDiffID\<close> \<^verbatim>\<open>sha256:\<close> followed by the
  lowercase hexadecimal digest of a stream; that stream is the packed tar stream of the
  asset (three headers and the data of the blob, not the blob alone), it is the
  concatenation of the writes made to the layer file in this iteration, and it is the
  content of the layer file. The hash was fed by the same writes, in one pass.
\<close>

theorem Save_iteration_LayerDiffID:
  assumes "Save_iteration E tmpDir M a st = (Return u, st')"
  shows "\<exists>blob data stream ws.
      M (Sha256 a) = Some blob \<and> blob_bytes blob = Some data
    \<and> packed_stream E (Sha256 a) data = Some stream
    \<and> trace (wld st') = trace (wld st) @ [(OpenFile (layerPath tmpDir a), None)]
         @ map (\<lambda>b. (WriteFile (layerPath tmpDir a) b, None)) ws
         @ [(AddLayer (layerPath tmpDir a), None), (CloseFile (layerPath tmpDir a), None)]
    \<and> concat ws = stream
    \<and> files (wld st') (layerPath tmpDir a) = Some stream
    \<and> map_of (assetLabel st') (Sha256 a)
         = Some (a\<lparr>LayerDiffID := ''sha256:'' @ hex (sha256 E stream)\<rparr>)
    \<and> length (hex (sha256 E stream)) = 2 * length (sha256 E stream)
    \<and> set (hex (sha256 E stream)) \<subseteq> set ''0123456789abcdef''"
proof -
  from Save_iteration_Return [OF assms] obtain blob data stream ws where
    r: "M (Sha256 a) = Some blob" "blob_bytes blob = Some data"
      "packed_stream E (Sha256 a) data = Some stream"
      "files (wld st') = (files (wld st))(layerPath tmpDir a \<mapsto> stream)"
      "trace (wld st') = trace (wld st) @ [(OpenFile (layerPath tmpDir a), None)]
         @ map (\<lambda>b. (WriteFile (layerPath tmpDir a) b, None)) ws
         @ [(AddLayer (layerPath tmpDir a), None), (CloseFile (layerPath tmpDir a), None)]"
      "concat ws = stream"
      "assetLabel st' = AList.update (Sha256 a) (a\<lparr>LayerDiffID := diff_id E stream\<rparr>) (assetLabel st)"
    by blast
  have f: "files (wld st') (layerPath tmpDir a) = Some stream" using r(4) by simp
  have l: "map_of (assetLabel st') (Sha256 a)
         = Some (a\<lparr>LayerDiffID := ''sha256:'' @ hex (sha256 E stream)\<rparr>)"
    using r(7) by (simp add: update_conv' diff_id_def)
  show ?thesis using r(1,2,3,5,6) f l length_hex set_hex by blast
qed

theorem Save_iteration_LayerDiffID_witness:
  "Save_iteration E0 ''/tmp/d'' [''first-sha256'' \<mapsto> first_blob] first_asset st0
     = (Return (), snd (Save_iteration E0 ''/tmp/d'' [''first-sha256'' \<mapsto> first_blob] first_asset st0))
   \<and> (\<exists>stream. files (wld (snd (Save_iteration E0 ''/tmp/d'' [''first-sha256'' \<mapsto> first_blob]
                                  first_asset st0))) (layerPath ''/tmp/d'' first_asset) = Some stream
        \<and> map_of (assetLabel (snd (Save_iteration E0 ''/tmp/d'' [''first-sha256'' \<mapsto> first_blob]
                                  first_asset st0))) (Sha256 first_asset)
            = Some (first_asset\<lparr>LayerDiffID := ''sha256:'' @ hex (sha256 E0 stream)\<rparr>))"
proof -
  let ?r = "Save_iteration E0 ''/tmp/d'' [''first-sha256'' \<mapsto> first_blob] first_asset st0"
  from Save_iteration_ok [OF E0_never_fails packable_first]
  obtain st' where "?r = (Return (), st')" by blast
  then have h: "?r = (Return (), snd ?r)" by simp
  from Save_iteration_LayerDiffID [OF h] h show ?thesis by blast
qed

text \<open>
  C10. When the body of the loop of \<open>Save\<close> finishes for an asset, the writes made to
  the layer file are the encodings of the three headers (each preceded by the two empty
  flushes of an entry without padding) and, last, the data of the blob; the layer file
  holds exactly these bytes and the digest is taken over exactly these bytes. Nothing
  follows the data: neither the padding of the last block nor the two trailer blocks,
  which only \<open>tw_Close\<close> would write (lemma \<open>toDistTar_Close\<close>), and the program never
  calls it.
\<close>

theorem Save_iteration_layer_file_ends_after_data:
  assumes "Save_iteration E tmpDir M a st = (Return u, st')"
  shows "\<exists>blob data m1 m2 m3.
      M (Sha256 a) = Some blob \<and> blob_bytes blob = Some data
    \<and> marshal E \<lparr>hdr_Typeflag = TypeDir, hdr_Name = path_Join [''cnb''], hdr_Mode = mode_0755,
                  hdr_Size = 0, hdr_ModTime = NormalizedDateTime E\<rparr> = Inr m1
    \<and> marshal E \<lparr>hdr_Typeflag = TypeDir, hdr_Name = path_Join [''cnb'', ''assets''],
                  hdr_Mode = mode_0755, hdr_Size = 0, hdr_ModTime = NormalizedDateTime E\<rparr> = Inr m2
    \<and> marshal E \<lparr>hdr_Typeflag = TypeReg, hdr_Name = path_Join [''/cnb'', ''assets'', Sha256 a],
                  hdr_Mode = mode_0755, hdr_Size = length data,
                  hdr_ModTime = NormalizedDateTime E\<rparr> = Inr m3
    \<and> trace (wld st') = trace (wld st) @ [(OpenFile (layerPath tmpDir a), None)]
         @ map (\<lambda>b. (WriteFile (layerPath tmpDir a) b, None))
             ([[], [], m1, [], [], m2, [], [], m3] @ (if data = [] then [] else [data]))
         @ [(AddLayer (layerPath tmpDir a), None), (CloseFile (layerPath tmpDir a), None)]
    \<and> files (wld st') (layerPath tmpDir a) = Some (m1 @ m2 @ m3 @ data)
    \<and> map_of (assetLabel st') (Sha256 a)
         = Some (a\<lparr>LayerDiffID := ''sha256:'' @ hex (sha256 E (m1 @ m2 @ m3 @ data))\<rparr>)"
proof -
  from Save_iteration_Return_explicit [OF assms] obtain blob data m1 m2 m3 where
    b: "M (Sha256 a) = Some blob" "blob_bytes blob = Some data"
    and mm: "marshal E \<lparr>hdr_Typeflag = TypeDir, hdr_Name = path_Join [''cnb''], hdr_Mode = mode_0755,
                  hdr_Size = 0, hdr_ModTime = NormalizedDateTime E\<rparr> = Inr m1"
      "marshal E \<lparr>hdr_Typeflag = TypeDir, hdr_Name = path_Join [''cnb'', ''assets''],
                  hdr_Mode = mode_0755, hdr_Size = 0, hdr_ModTime = NormalizedDateTime E\<rparr> = Inr m2"
      "marshal E \<lparr>hdr_Typeflag = TypeReg, hdr_Name = path_Join [''/cnb'', ''assets'', Sha256 a],
                  hdr_Mode = mode_0755, hdr_Size = length data,
                  hdr_ModTime = NormalizedDateTime E\<rparr> = Inr m3"
    and r: "files (wld st') = (files (wld st))(layerPath tmpDir a \<mapsto> m1 @ m2 @ m3 @ data)"
      "trace (wld st') = trace (wld st) @ [(OpenFile (layerPath tmpDir a), None)]
         @ map (\<lambda>b. (WriteFile (layerPath tmpDir a) b, None))
             ([[], [], m1, [], [], m2, [], [], m3] @ (if data = [] then [] else [data]))
         @ [(AddLayer (layerPath tmpDir a), None), (CloseFile (layerPath tmpDir a), None)]"
      "assetLabel st' = AList.update (Sha256 a)
          (a\<lparr>LayerDiffID := ''sha256:'' @ hex (sha256 E (m1 @ m2 @ m3 @ data))\<rparr>) (assetLabel st)"
    by blast
  have f: "files (wld st') (layerPath tmpDir a) = Some (m1 @ m2 @ m3 @ data)" using r(1) by simp
  have l: "map_of (assetLabel st') (Sha256 a)
         = Some (a\<lparr>LayerDiffID := ''sha256:'' @ hex (sha256 E (m1 @ m2 @ m3 @ data))\<rparr>)"
    using r(3) by (simp add: update_conv')
  show ?thesis using b mm r(2) f l by blast
qed

theorem Save_iteration_layer_file_ends_after_data_witness:
  "Save_iteration E0 ''/tmp/d'' [''first-sha256'' \<mapsto> first_blob] first_asset st0
     = (Return (), snd (Save_iteration E0 ''/tmp/d'' [''first-sha256'' \<mapsto> first_blob] first_asset st0))
   \<and> (\<exists>data m1 m2 m3.
        blob_bytes first_blob = Some data
      \<and> files (wld (snd (Save_iteration E0 ''/tmp/d'' [''first-sha256'' \<mapsto> first_blob]
                                  first_asset st0))) (layerPath ''/tmp/d'' first_asset)
           = Some (m1 @ m2 @ m3 @ data))"
proof -
  let ?r = "Save_iteration E0 ''/tmp/d'' [''first-sha256'' \<mapsto> first_blob] first_asset st0"
  from Save_iteration_ok [OF E0_never_fails packable_first]
  obtain st' where "?r = (Return (), st')" by blast
  then have h: "?r = (Return (), snd ?r)" by simp
  from Save_iteration_layer_file_ends_after_data [OF h] obtain blob data m1 m2 m3 where
    "[''first-sha256'' \<mapsto> first_blob] (Sha256 first_asset) = Some blob" "blob_bytes blob = Some data"
    "files (wld (snd ?r)) (layerPath ''/tmp/d'' first_asset) = Some (m1 @ m2 @ m3 @ data)"
    by blast
  moreover from this have "blob = first_blob" by (simp add: first_asset_def)
  ultimately show ?thesis using h by blast
qed




text \<open>
  C8. Packing is deterministic. Take two runs of the body of the loop of \<open>Save\<close> that
  finish, in any two worlds, with any two working directories and for any two assets
  that have the same hash and whose blobs hold the same bytes: both enter their asset
  in the label with the same \<open>LayerDiffID\<close>. The two runs may belong to one build or to
  two.
\<close>

theorem packing_deterministic:
  assumes "Save_iteration E d1 M1 a1 s1 = (Return u1, s1')"
    and "Save_iteration E d2 M2 a2 s2 = (Return u2, s2')"
    and "Sha256 a1 = Sha256 a2"
    and "M1 (Sha256 a1) = Some b1" "M2 (Sha256 a2) = Some b2" "blob_bytes b1 = blob_bytes b2"
  shows "\<exists>v. map_of (assetLabel s1') (Sha256 a1) = Some (a1\<lparr>LayerDiffID := v\<rparr>)
           \<and> map_of (assetLabel s2') (Sha256 a2) = Some (a2\<lparr>LayerDiffID := v\<rparr>)"
proof -
  from Save_iteration_Return [OF assms(1)] assms(4) obtain data1 stream1 where
    r1: "blob_bytes b1 = Some data1" "packed_stream E (Sha256 a1) data1 = Some stream1"
      "assetLabel s1' = AList.update (Sha256 a1) (a1\<lparr>LayerDiffID := diff_id E stream1\<rparr>) (assetLabel s1)"
    by auto
  from Save_iteration_Return [OF assms(2)] assms(5) obtain data2 stream2 where
    r2: "blob_bytes b2 = Some data2" "packed_stream E (Sha256 a2) data2 = Some stream2"
      "assetLabel s2' = AList.update (Sha256 a2) (a2\<lparr>LayerDiffID := diff_id E stream2\<rparr>) (assetLabel s2)"
    by auto
  from r1(1) r2(1) assms(6) have "data1 = data2" by simp
  with r1(2) r2(2) assms(3) have "stream1 = stream2" by simp
  with r1(3) r2(3) have
    "map_of (assetLabel s1') (Sha256 a1) = Some (a1\<lparr>LayerDiffID := diff_id E stream2\<rparr>)
     \<and> map_of (assetLabel s2') (Sha256 a2) = Some (a2\<lparr>LayerDiffID := diff_id E stream2\<rparr>)"
    by (simp add: update_conv')
  then show ?thesis by blast
qed

theorem packing_deterministic_witness:
  "Save_iteration E0 ''/tmp/d'' [''first-sha256'' \<mapsto> first_blob] first_asset st0
     = (Return (), snd (Save_iteration E0 ''/tmp/d'' [''first-sha256'' \<mapsto> first_blob] first_asset st0))
   \<and> Save_iteration E0 ''/tmp/e'' [''first-sha256'' \<mapsto> first_blob] other_asset st0
     = (Return (), snd (Save_iteration E0 ''/tmp/e'' [''first-sha256'' \<mapsto> first_blob] other_asset st0))
   \<and> Sha256 first_asset = Sha256 other_asset
   \<and> (\<exists>v. map_of (assetLabel (snd (Save_iteration E0 ''/tmp/d'' [''first-sha256'' \<mapsto> first_blob]
                                     first_asset st0))) (Sha256 first_asset)
              = Some (first_asset\<lparr>LayerDiffID := v\<rparr>)
          \<and> map_of (assetLabel (snd (Save_iteration E0 ''/tmp/e'' [''first-sha256'' \<mapsto> first_blob]
                                     other_asset st0))) (Sha256 other_asset)
              = Some (other_asset\<lparr>LayerDiffID := v\<rparr>))"
proof -
  let ?M = "[''first-sha256'' \<mapsto> first_blob]"
  let ?r1 = "Save_iteration E0 ''/tmp/d'' ?M first_asset st0"
  let ?r2 = "Save_iteration E0 ''/tmp/e'' ?M other_asset st0"
  from Save_iteration_ok [OF E0_never_fails packable_first]
  obtain x where "?r1 = (Return (), x)" by blast
  then have h1: "?r1 = (Return (), snd ?r1)" by simp
  from Save_iteration_ok [OF E0_never_fails packable_other]
  obtain y where "?r2 = (Return (), y)" by blast
  then have h2: "?r2 = (Return (), snd ?r2)" by simp
  have e: "Sha256 first_asset = Sha256 other_asset" by (simp add: first_asset_def other_asset_def)
  have m1: "?M (Sha256 first_asset) = Some first_blob" by (simp add: first_asset_def)
  have m2: "?M (Sha256 other_asset) = Some first_blob" by (simp add: other_asset_def)
  from packing_deterministic [OF h1 h2 e m1 m2 refl] h1 h2 e show ?thesis by blast
qed



text \<open>
  C3, as the code has it. \<open>CreateAssetCache\<close> neither removes duplicates nor sorts.
  A successful build fetches once, opens a layer file for packing once and attaches a
  layer once for every element of the list it is given, in the order of the list. So
  there is one fetch, one pack and one attached layer per distinct \<open>Sha256\<close> when the
  \<open>Sha256\<close> values of the list are pairwise different. That is the case, and the list
  is sorted by \<open>ID\<close>, when the list is one that \<open>getAssets\<close> of the command returns,
  whose hashes are those of the assets of the buildpacks.
\<close>

theorem CreateAssetCache_one_step_per_list_element:
  assumes "CreateAssetCache E opts w = (Return None, w')"
  shows "\<exists>ts d. trace w' = trace w @ ts
     \<and> fetches ts = map URI (Assets opts)
     \<and> packs ts = map (layerPath d) (Assets opts)
     \<and> layers_added ts = map (layerPath d) (Assets opts)
     \<and> (distinct (map Sha256 (Assets opts)) \<longrightarrow>
           length (fetches ts) = card (Sha256 ` set (Assets opts))
         \<and> length (packs ts) = card (Sha256 ` set (Assets opts))
         \<and> length (layers_added ts) = card (Sha256 ` set (Assets opts)))
     \<and> (\<forall>bps. getAssets_returns bps (Assets opts) \<longrightarrow>
           distinct (map Sha256 (Assets opts)) \<and> sorted (map ID (Assets opts))
         \<and> Sha256 ` set (Assets opts) = Sha256 ` set (concat bps))"
proof -
  from CreateAssetCache_Return_None [OF assms] obtain d ts where
    t: "trace w' = trace w @ ts" "fetches ts = map URI (Assets opts)"
      "packs ts = map (layerPath d) (Assets opts)"
      "layers_added ts = map (layerPath d) (Assets opts)"
    by blast
  have "distinct (map Sha256 (Assets opts)) \<longrightarrow>
          length (Assets opts) = card (Sha256 ` set (Assets opts))"
    using distinct_card [of "map Sha256 (Assets opts)"] by simp
  with t have "length (fetches ts) = length (Assets opts)" "length (packs ts) = length (Assets opts)"
    "length (layers_added ts) = length (Assets opts)"
    "distinct (map Sha256 (Assets opts)) \<longrightarrow>
          length (Assets opts) = card (Sha256 ` set (Assets opts))"
    by simp_all
  then have c: "distinct (map Sha256 (Assets opts)) \<longrightarrow>
           length (fetches ts) = card (Sha256 ` set (Assets opts))
         \<and> length (packs ts) = card (Sha256 ` set (Assets opts))
         \<and> length (layers_added ts) = card (Sha256 ` set (Assets opts))"
    by simp
  have g: "\<forall>bps. getAssets_returns bps (Assets opts) \<longrightarrow>
           distinct (map Sha256 (Assets opts)) \<and> sorted (map ID (Assets opts))
         \<and> Sha256 ` set (Assets opts) = Sha256 ` set (concat bps)"
    using getAssets_returns_sound by blast
  show ?thesis using t c g by blast
qed

theorem CreateAssetCache_one_step_per_list_element_witness:
  "CreateAssetCache E0 \<lparr>ImageName = ''test-cache-image'', Assets = [first_asset, second_asset]\<rparr> w0
     = (Return None, snd (CreateAssetCache E0 \<lparr>ImageName = ''test-cache-image'',
                        Assets = [first_asset, second_asset]\<rparr> w0))
   \<and> distinct (map Sha256 [first_asset, second_asset])
   \<and> getAssets_returns [[second_asset, first_asset], [first_asset]] [first_asset, second_asset]
   \<and> sorted (map ID [first_asset, second_asset])
   \<and> fetches (trace (snd (CreateAssetCache E0 \<lparr>ImageName = ''test-cache-image'',
                        Assets = [first_asset, second_asset]\<rparr> w0)))
       = [''https://first-asset-uri'', ''https://second-asset-uri'']
   \<and> length (layers_added (trace (snd (CreateAssetCache E0 \<lparr>ImageName = ''test-cache-image'',
                        Assets = [first_asset, second_asset]\<rparr> w0))))
       = card (Sha256 ` set [first_asset, second_asset])"
proof -
  let ?o = "\<lparr>ImageName = ''test-cache-image'', Assets = [first_asset, second_asset]\<rparr>"
  have h: "CreateAssetCache E0 ?o w0 = (Return None, snd (CreateAssetCache E0 ?o w0))"
    by (rule E0_builds) simp
  have d: "distinct (map Sha256 [first_asset, second_asset])"
    by (simp add: first_asset_def second_asset_def)
  from CreateAssetCache_one_step_per_list_element [OF h] obtain ts where
    r: "trace (snd (CreateAssetCache E0 ?o w0)) = trace w0 @ ts"
    "fetches ts = map URI (Assets ?o)"
    "distinct (map Sha256 (Assets ?o)) \<longrightarrow>
       length (layers_added ts) = card (Sha256 ` set (Assets ?o))"
    "\<forall>bps. getAssets_returns bps (Assets ?o) \<longrightarrow>
           distinct (map Sha256 (Assets ?o)) \<and> sorted (map ID (Assets ?o))
         \<and> Sha256 ` set (Assets ?o) = Sha256 ` set (concat bps)"
    by blast
  from r(4) getAssets_example have so: "sorted (map ID [first_asset, second_asset])"
    by (metis CreateAssetCacheOptions.select_convs(2))
  from r(1-3) d have "fetches (trace (snd (CreateAssetCache E0 ?o w0)))
       = [''https://first-asset-uri'', ''https://second-asset-uri'']
     \<and> length (layers_added (trace (snd (CreateAssetCache E0 ?o w0))))
       = card (Sha256 ` set [first_asset, second_asset])"
    by (simp add: w0_def first_asset_def second_asset_def)
  with h d so getAssets_example show ?thesis by blast
qed

text \<open>
  C3, as stated, fails: for a list of two assets with the same \<open>Sha256\<close> the build
  succeeds with two fetches and two attached layers.
\<close>

theorem CreateAssetCache_duplicate_hash_counterexample:
  "fst (CreateAssetCache E0 \<lparr>ImageName = ''test-cache-image'',
                            Assets = [first_asset, other_asset]\<rparr> w0) = Return None
   \<and> Sha256 first_asset = Sha256 other_asset
   \<and> fetches (trace (snd (CreateAssetCache E0 \<lparr>ImageName = ''test-cache-image'',
                            Assets = [first_asset, other_asset]\<rparr> w0)))
       = [''https://first-asset-uri'', ''https://other-asset-uri'']
   \<and> length (layers_added (trace (snd (CreateAssetCache E0 \<lparr>ImageName = ''test-cache-image'',
                            Assets = [first_asset, other_asset]\<rparr> w0)))) = 2"
proof -
  let ?o = "\<lparr>ImageName = ''test-cache-image'', Assets = [first_asset, other_asset]\<rparr>"
  have h: "CreateAssetCache E0 ?o w0 = (Return None, snd (CreateAssetCache E0 ?o w0))"
    by (rule E0_builds) simp
  from CreateAssetCache_Return_None [OF h] obtain d ts where
    "trace (snd (CreateAssetCache E0 ?o w0)) = trace w0 @ ts"
    "fetches ts = map URI (Assets ?o)"
    "layers_added ts = map (layerPath d) (Assets ?o)"
    by blast
  then have "fetches (trace (snd (CreateAssetCache E0 ?o w0)))
       = [''https://first-asset-uri'', ''https://other-asset-uri'']
     \<and> length (layers_added (trace (snd (CreateAssetCache E0 ?o w0)))) = 2"
    by (simp add: w0_def first_asset_def other_asset_def)
  moreover have "Sha256 first_asset = Sha256 other_asset"
    by (simp add: first_asset_def other_asset_def)
  moreover from h have "fst (CreateAssetCache E0 ?o w0) = Return None" by (metis fst_conv)
  ultimately show ?thesis by blast
qed







end
